theory Spec2Isabelle
  imports Main
begin

section \<open>Effects of the server actions\<close>

text \<open>
  Every function of the repository is an \<^verbatim>\<open>async\<close> function that calls hosted services.
  A call is modelled as an action on an explicit state: it returns either the thrown value
  (the rejection reason of the promise) or the result, together with the new state. The
  state records what the outside world can observe: the calls that were issued, in order,
  the console output and, for the identity actions, the cookie store.
\<close>

datatype exn = Exn string

text \<open>What an \<^verbatim>\<open>async\<close> function of the repository resolves to.\<close>

datatype 'a ret = Undefined | Null | Value 'a

type_synonym ('s, 'a) act = "'s \<Rightarrow> (exn + 'a) \<times> 's"

definition returnA :: "'a \<Rightarrow> ('s, 'a) act" where
  "returnA x s = (Inr x, s)"

text \<open>\<^verbatim>\<open>const x = await m; f x\<close>: a rejection of \<open>m\<close> is thrown and skips \<open>f\<close>.\<close>

definition bindA :: "('s, 'a) act \<Rightarrow> ('a \<Rightarrow> ('s, 'b) act) \<Rightarrow> ('s, 'b) act" where
  "bindA m f s = (case m s of (Inl e, s') \<Rightarrow> (Inl e, s') | (Inr x, s') \<Rightarrow> f x s')"

text \<open>\<^verbatim>\<open>try { m } catch (e) { h e }\<close>, and \<^verbatim>\<open>m.catch(h)\<close> on a promise.\<close>

definition tryCatch :: "('s, 'a) act \<Rightarrow> (exn \<Rightarrow> ('s, 'a) act) \<Rightarrow> ('s, 'a) act" where
  "tryCatch m h s = (case m s of (Inl e, s') \<Rightarrow> h e s' | (Inr x, s') \<Rightarrow> (Inr x, s'))"

text \<open>
  A promise that is neither awaited nor returned: its effects happen, its value is dropped,
  and a rejection reaches no \<^verbatim>\<open>catch\<close> block of the caller. The runtime reports it as an
  unhandled rejection, which \<open>report\<close> records in the state. The effects are recorded
  where the promise is created; the callbacks really run once the caller has returned, which
  changes nothing here, since both callers create the promise in their last statement.
\<close>

definition floating :: "(exn \<Rightarrow> 's \<Rightarrow> 's) \<Rightarrow> ('s, 'a) act \<Rightarrow> ('s, unit) act" where
  "floating report m s =
     (case m s of (Inl e, s') \<Rightarrow> (Inr (), report e s') | (Inr x, s') \<Rightarrow> (Inr (), s'))"

datatype console_event =
    ConsoleError string exn
  | ConsoleError1 exn
  | ConsoleLog exn

section \<open>Identity actions (src/lib/actions/user.actions.ts)\<close>

record cookie_options =
  path :: string
  httpOnly :: bool
  sameSite :: string
  secure :: bool

record Session =
  session_id :: string
  secret :: string

record User =
  User_id :: string
  User_name :: string
  User_email :: string

text \<open>The \<^verbatim>\<open>account\<close> object of the identity provider's client: each method is the
  settlement of the promise the vendor returns for the given arguments.\<close>

record Account =
  createEmailPasswordSession :: "string \<Rightarrow> string \<Rightarrow> exn + Session"
  create :: "string \<Rightarrow> string \<Rightarrow> string \<Rightarrow> string \<Rightarrow> exn + User"
  deleteSession :: "string \<Rightarrow> exn + unit"
  get :: "exn + User"

type_synonym cookie_jar = "string \<rightharpoonup> string \<times> cookie_options"

text \<open>
  \<^verbatim>\<open>createAdminClient\<close> and \<^verbatim>\<open>createSessionClient\<close> (\<^verbatim>\<open>../appwrite\<close>) and
  \<^verbatim>\<open>ID.unique()\<close> are imported from modules that are not modelled; they are parameters.
  The session client may depend on the cookies of the request.
\<close>

record appwrite =
  createAdminClient :: "exn + Account"
  createSessionClient :: "cookie_jar \<Rightarrow> exn + Account"
  ID_unique :: string

datatype id_event =
    CreateAdminClient
  | CreateSessionClient
  | CreateEmailPasswordSession string string
  | AccountCreate string string string string
  | DeleteSession string
  | AccountGet
  | CookiesSet string string cookie_options
  | CookiesDelete string
  | Console console_event

record world =
  jar :: cookie_jar
  trace :: "id_event list"

definition emit :: "id_event \<Rightarrow> world \<Rightarrow> world" where
  "emit ev w = w\<lparr>trace := trace w @ [ev]\<rparr>"

text \<open>Issue a vendor call: the call is recorded, its settlement is the outcome.\<close>

definition vendor :: "id_event \<Rightarrow> exn + 'a \<Rightarrow> (world, 'a) act" where
  "vendor ev r w = (r, emit ev w)"

definition createAdminClientA :: "appwrite \<Rightarrow> (world, Account) act" where
  "createAdminClientA env w = (createAdminClient env, emit CreateAdminClient w)"

definition createSessionClientA :: "appwrite \<Rightarrow> (world, Account) act" where
  "createSessionClientA env w = (createSessionClient env (jar w), emit CreateSessionClient w)"

text \<open>\<^verbatim>\<open>cookies().set(name, value, options)\<close> and \<^verbatim>\<open>cookies().delete(name)\<close>.\<close>

definition cookies_set :: "string \<Rightarrow> string \<Rightarrow> cookie_options \<Rightarrow> (world, unit) act" where
  "cookies_set n v opts w =
     (Inr (), emit (CookiesSet n v opts) (w\<lparr>jar := (jar w)(n \<mapsto> (v, opts))\<rparr>))"

definition cookies_delete :: "string \<Rightarrow> (world, unit) act" where
  "cookies_delete n w = (Inr (), emit (CookiesDelete n) (w\<lparr>jar := (jar w)(n := None)\<rparr>))"

definition console :: "console_event \<Rightarrow> (world, unit) act" where
  "console c w = (Inr (), emit (Console c) w)"

record customer_name_email =
  firstName :: string
  lastName :: string
  email :: string

record SignUpParams = customer_name_email +
  password :: string
  address1 :: string
  city :: string
  state :: string
  postalCode :: string
  dateOfBirth :: string
  ssn :: string

text \<open>\<^verbatim>\<open>getUserInfo\<close>: the body of its \<^verbatim>\<open>try\<close> block is commented out.\<close>

definition getUserInfo :: "string \<Rightarrow> (world, 'j ret) act" where
  "getUserInfo userId =
     bindA (tryCatch (returnA ()) (\<lambda>error. console (ConsoleLog error)))
       (\<lambda>_. returnA Undefined)"

text \<open>\<^verbatim>\<open>parseStringify\<close> (\<^verbatim>\<open>../utils\<close>) is a parameter of the actions that use it.\<close>

definition signIn :: "appwrite \<Rightarrow> (Session \<Rightarrow> 'j) \<Rightarrow> string \<Rightarrow> string \<Rightarrow> (world, 'j ret) act" where
  "signIn env parseStringify em pw =
     tryCatch
       (bindA (createAdminClientA env) (\<lambda>account.
        bindA (vendor (CreateEmailPasswordSession em pw)
                 (createEmailPasswordSession account em pw)) (\<lambda>session.
        bindA (cookies_set ''appwrite-session'' (secret session)
                 \<lparr>path = ''/'', httpOnly = True, sameSite = ''strict'', secure = True\<rparr>) (\<lambda>_.
        returnA (Value (parseStringify session))))))
       (\<lambda>error. bindA (console (ConsoleError ''Error'' error)) (\<lambda>_. returnA Undefined))"

definition signUp :: "appwrite \<Rightarrow> (User \<Rightarrow> 'j) \<Rightarrow> SignUpParams \<Rightarrow> (world, 'j ret) act" where
  "signUp env parseStringify userData =
     tryCatch
       (bindA (createAdminClientA env) (\<lambda>account.
        bindA (vendor (AccountCreate (ID_unique env) (email userData) (password userData)
                         (firstName userData @ '' '' @ lastName userData))
                 (create account (ID_unique env) (email userData) (password userData)
                         (firstName userData @ '' '' @ lastName userData))) (\<lambda>newUserAccount.
        bindA (vendor (CreateEmailPasswordSession (email userData) (password userData))
                 (createEmailPasswordSession account (email userData) (password userData)))
          (\<lambda>session.
        bindA (cookies_set ''appwrite-session'' (secret session)
                 \<lparr>path = ''/'', httpOnly = True, sameSite = ''strict'', secure = True\<rparr>) (\<lambda>_.
        returnA (Value (parseStringify newUserAccount)))))))
       (\<lambda>error. bindA (console (ConsoleError ''Error'' error)) (\<lambda>_. returnA Undefined))"

definition logoutAccount :: "appwrite \<Rightarrow> (world, bool ret) act" where
  "logoutAccount env =
     tryCatch
       (bindA (createSessionClientA env) (\<lambda>account.
        bindA (cookies_delete ''appwrite-session'') (\<lambda>_.
        bindA (vendor (DeleteSession ''current'') (deleteSession account ''current''))
          (\<lambda>response.
        returnA (Value True)))))
       (\<lambda>error. bindA (console (ConsoleError ''Error'' error)) (\<lambda>_. returnA Undefined))"

definition getLoggedInUser :: "appwrite \<Rightarrow> (User \<Rightarrow> 'j) \<Rightarrow> (world, 'j ret) act" where
  "getLoggedInUser env parseStringify =
     tryCatch
       (bindA (createSessionClientA env) (\<lambda>account.
        bindA (vendor AccountGet (get account)) (\<lambda>result.
        returnA (Value (parseStringify result)))))
       (\<lambda>error. bindA (console (ConsoleLog error)) (\<lambda>_. returnA Null))"

section \<open>Generated payment API client (src/.api/apis/checkbook-docs/index.ts)\<close>

text \<open>
  The class \<^verbatim>\<open>SDK\<close> holds an \<^verbatim>\<open>APICore\<close> (package \<^verbatim>\<open>api\<close>).
  Its \<^verbatim>\<open>fetch(path, method, body?, metadata?)\<close> sends one HTTP request and returns a promise;
  the settlement of that promise is a parameter. The two optional positional arguments are
  kept as the methods pass them: a method that takes only \<^verbatim>\<open>metadata\<close> passes it third.
\<close>

record ('p, 'q, 'r) APICore =
  fetch :: "string \<Rightarrow> string \<Rightarrow> 'p option \<Rightarrow> 'q option \<Rightarrow> exn + 'r"

datatype ('p, 'q, 'd) sdk_event =
    SetConfig "nat option"
  | SetAuth "string list"
  | SetServer string
  | Fetch string string "'p option" "'q option"
  | ConsoleLogData 'd
  | SdkConsole console_event
  | UnhandledRejection exn

definition core_fetch ::
  "('p, 'q, 'r) APICore \<Rightarrow> string \<Rightarrow> string \<Rightarrow> 'p option \<Rightarrow> 'q option
     \<Rightarrow> (('p, 'q, 'd) sdk_event list, 'r) act" where
  "core_fetch core pth meth a b tr = (fetch core pth meth a b, tr @ [Fetch pth meth a b])"

text \<open>\<^verbatim>\<open>config\<close> (its option object carries a \<^verbatim>\<open>timeout\<close>), \<^verbatim>\<open>auth\<close> and \<^verbatim>\<open>server\<close>
  store their argument in the core.\<close>

definition config :: "nat option \<Rightarrow> (('p, 'q, 'd) sdk_event list, unit) act" where
  "config timeout tr = (Inr (), tr @ [SetConfig timeout])"

definition auth :: "string list \<Rightarrow> (('p, 'q, 'd) sdk_event list, unit) act" where
  "auth values tr = (Inr (), tr @ [SetAuth values])"

definition server :: "string \<Rightarrow> (('p, 'q, 'd) sdk_event list, unit) act" where
  "server url tr = (Inr (), tr @ [SetServer url])"

definition getBanks :: "('p, 'q, 'r) APICore \<Rightarrow> (('p, 'q, 'd) sdk_event list, 'r) act" where
  "getBanks core =
     core_fetch core ''/v3/account/bank'' ''get'' None None"

definition postBank :: "('p, 'q, 'r) APICore \<Rightarrow> 'p \<Rightarrow> (('p, 'q, 'd) sdk_event list, 'r) act" where
  "postBank core body =
     core_fetch core ''/v3/account/bank'' ''post'' (Some body) None"

definition postBankIav :: "('p, 'q, 'r) APICore \<Rightarrow> 'p \<Rightarrow> (('p, 'q, 'd) sdk_event list, 'r) act" where
  "postBankIav core body =
     core_fetch core ''/v3/account/bank/iav'' ''post'' (Some body) None"

definition postBankPlaid :: "('p, 'q, 'r) APICore \<Rightarrow> 'p \<Rightarrow> (('p, 'q, 'd) sdk_event list, 'r) act" where
  "postBankPlaid core body =
     core_fetch core ''/v3/account/bank/iav/plaid'' ''post'' (Some body) None"

definition getBankInstitutions :: "('p, 'q, 'r) APICore \<Rightarrow> (('p, 'q, 'd) sdk_event list, 'r) act" where
  "getBankInstitutions core =
     core_fetch core ''/v3/account/bank/institutions'' ''get'' None None"

definition postBankRelease :: "('p, 'q, 'r) APICore \<Rightarrow> 'p \<Rightarrow> (('p, 'q, 'd) sdk_event list, 'r) act" where
  "postBankRelease core body =
     core_fetch core ''/v3/account/bank/release'' ''post'' (Some body) None"

definition postBankVerify :: "('p, 'q, 'r) APICore \<Rightarrow> 'p \<Rightarrow> (('p, 'q, 'd) sdk_event list, 'r) act" where
  "postBankVerify core body =
     core_fetch core ''/v3/account/bank/verify'' ''post'' (Some body) None"

definition deleteBank :: "('p, 'q, 'r) APICore \<Rightarrow> 'p \<Rightarrow> (('p, 'q, 'd) sdk_event list, 'r) act" where
  "deleteBank core metadata =
     core_fetch core ''/v3/account/bank/{bank_id}'' ''delete'' (Some metadata) None"

definition putBank :: "('p, 'q, 'r) APICore \<Rightarrow> 'p \<Rightarrow> 'q \<Rightarrow> (('p, 'q, 'd) sdk_event list, 'r) act" where
  "putBank core body metadata =
     core_fetch core ''/v3/account/bank/{bank_id}'' ''put'' (Some body) (Some metadata)"

definition getCards :: "('p, 'q, 'r) APICore \<Rightarrow> (('p, 'q, 'd) sdk_event list, 'r) act" where
  "getCards core =
     core_fetch core ''/v3/account/card'' ''get'' None None"

definition postCard :: "('p, 'q, 'r) APICore \<Rightarrow> 'p \<Rightarrow> (('p, 'q, 'd) sdk_event list, 'r) act" where
  "postCard core body =
     core_fetch core ''/v3/account/card'' ''post'' (Some body) None"

definition deleteCard :: "('p, 'q, 'r) APICore \<Rightarrow> 'p \<Rightarrow> (('p, 'q, 'd) sdk_event list, 'r) act" where
  "deleteCard core metadata =
     core_fetch core ''/v3/account/card/{card_id}'' ''delete'' (Some metadata) None"

definition putCard :: "('p, 'q, 'r) APICore \<Rightarrow> 'p \<Rightarrow> 'q \<Rightarrow> (('p, 'q, 'd) sdk_event list, 'r) act" where
  "putCard core body metadata =
     core_fetch core ''/v3/account/card/{card_id}'' ''put'' (Some body) (Some metadata)"

definition get_paypal :: "('p, 'q, 'r) APICore \<Rightarrow> (('p, 'q, 'd) sdk_event list, 'r) act" where
  "get_paypal core =
     core_fetch core ''/v3/account/paypal'' ''get'' None None"

definition add_paypal :: "('p, 'q, 'r) APICore \<Rightarrow> 'p \<Rightarrow> (('p, 'q, 'd) sdk_event list, 'r) act" where
  "add_paypal core body =
     core_fetch core ''/v3/account/paypal'' ''post'' (Some body) None"

definition remove_paypal :: "('p, 'q, 'r) APICore \<Rightarrow> 'p \<Rightarrow> (('p, 'q, 'd) sdk_event list, 'r) act" where
  "remove_paypal core metadata =
     core_fetch core ''/v3/account/paypal/{paypal_id}'' ''delete'' (Some metadata) None"

definition put_paypal :: "('p, 'q, 'r) APICore \<Rightarrow> 'p \<Rightarrow> 'q \<Rightarrow> (('p, 'q, 'd) sdk_event list, 'r) act" where
  "put_paypal core body metadata =
     core_fetch core ''/v3/account/paypal/{paypal_id}'' ''put'' (Some body) (Some metadata)"

definition getVccs :: "('p, 'q, 'r) APICore \<Rightarrow> (('p, 'q, 'd) sdk_event list, 'r) act" where
  "getVccs core =
     core_fetch core ''/v3/account/vcc'' ''get'' None None"

definition postVcc :: "('p, 'q, 'r) APICore \<Rightarrow> 'p \<Rightarrow> (('p, 'q, 'd) sdk_event list, 'r) act" where
  "postVcc core body =
     core_fetch core ''/v3/account/vcc'' ''post'' (Some body) None"

definition deleteVcc :: "('p, 'q, 'r) APICore \<Rightarrow> 'p \<Rightarrow> (('p, 'q, 'd) sdk_event list, 'r) act" where
  "deleteVcc core metadata =
     core_fetch core ''/v3/account/vcc/{vcc_id}'' ''delete'' (Some metadata) None"

definition putVcc :: "('p, 'q, 'r) APICore \<Rightarrow> 'p \<Rightarrow> 'q \<Rightarrow> (('p, 'q, 'd) sdk_event list, 'r) act" where
  "putVcc core body metadata =
     core_fetch core ''/v3/account/vcc/{vcc_id}'' ''put'' (Some body) (Some metadata)"

definition getVccTransaction :: "('p, 'q, 'r) APICore \<Rightarrow> 'p \<Rightarrow> (('p, 'q, 'd) sdk_event list, 'r) act" where
  "getVccTransaction core metadata =
     core_fetch core ''/v3/account/vcc/{vcc_id}/transaction'' ''get'' (Some metadata) None"

definition get_venmo :: "('p, 'q, 'r) APICore \<Rightarrow> (('p, 'q, 'd) sdk_event list, 'r) act" where
  "get_venmo core =
     core_fetch core ''/v3/account/venmo'' ''get'' None None"

definition add_venmo :: "('p, 'q, 'r) APICore \<Rightarrow> 'p \<Rightarrow> (('p, 'q, 'd) sdk_event list, 'r) act" where
  "add_venmo core body =
     core_fetch core ''/v3/account/venmo'' ''post'' (Some body) None"

definition remove_venmo :: "('p, 'q, 'r) APICore \<Rightarrow> 'p \<Rightarrow> (('p, 'q, 'd) sdk_event list, 'r) act" where
  "remove_venmo core metadata =
     core_fetch core ''/v3/account/venmo/{venmo_id}'' ''delete'' (Some metadata) None"

definition put_venmo :: "('p, 'q, 'r) APICore \<Rightarrow> 'p \<Rightarrow> 'q \<Rightarrow> (('p, 'q, 'd) sdk_event list, 'r) act" where
  "put_venmo core body metadata =
     core_fetch core ''/v3/account/venmo/{venmo_id}'' ''put'' (Some body) (Some metadata)"

definition add_wallet :: "('p, 'q, 'r) APICore \<Rightarrow> 'p \<Rightarrow> (('p, 'q, 'd) sdk_event list, 'r) act" where
  "add_wallet core body =
     core_fetch core ''/v3/account/wallet'' ''post'' (Some body) None"

definition get_zelle :: "('p, 'q, 'r) APICore \<Rightarrow> (('p, 'q, 'd) sdk_event list, 'r) act" where
  "get_zelle core =
     core_fetch core ''/v3/account/zelle'' ''get'' None None"

definition add_zelle :: "('p, 'q, 'r) APICore \<Rightarrow> 'p \<Rightarrow> (('p, 'q, 'd) sdk_event list, 'r) act" where
  "add_zelle core body =
     core_fetch core ''/v3/account/zelle'' ''post'' (Some body) None"

definition put_zelle :: "('p, 'q, 'r) APICore \<Rightarrow> 'p \<Rightarrow> 'q \<Rightarrow> (('p, 'q, 'd) sdk_event list, 'r) act" where
  "put_zelle core body metadata =
     core_fetch core ''/v3/account/zelle/{account_id}'' ''put'' (Some body) (Some metadata)"

definition remove_zelle :: "('p, 'q, 'r) APICore \<Rightarrow> 'p \<Rightarrow> (('p, 'q, 'd) sdk_event list, 'r) act" where
  "remove_zelle core metadata =
     core_fetch core ''/v3/account/zelle/{zelle_id}'' ''delete'' (Some metadata) None"

definition getApprovalChecks :: "('p, 'q, 'r) APICore \<Rightarrow> 'p option \<Rightarrow> (('p, 'q, 'd) sdk_event list, 'r) act" where
  "getApprovalChecks core metadata =
     core_fetch core ''/v3/approval'' ''get'' metadata None"

definition postApprovalDigital :: "('p, 'q, 'r) APICore \<Rightarrow> 'p \<Rightarrow> (('p, 'q, 'd) sdk_event list, 'r) act" where
  "postApprovalDigital core body =
     core_fetch core ''/v3/approval/digital'' ''post'' (Some body) None"

definition postApprovalMulti :: "('p, 'q, 'r) APICore \<Rightarrow> 'p \<Rightarrow> (('p, 'q, 'd) sdk_event list, 'r) act" where
  "postApprovalMulti core body =
     core_fetch core ''/v3/approval/multi'' ''post'' (Some body) None"

definition postApprovalPhysical :: "('p, 'q, 'r) APICore \<Rightarrow> 'p \<Rightarrow> (('p, 'q, 'd) sdk_event list, 'r) act" where
  "postApprovalPhysical core body =
     core_fetch core ''/v3/approval/physical'' ''post'' (Some body) None"

definition postApprovalRelease :: "('p, 'q, 'r) APICore \<Rightarrow> 'p \<Rightarrow> (('p, 'q, 'd) sdk_event list, 'r) act" where
  "postApprovalRelease core body =
     core_fetch core ''/v3/approval/release'' ''post'' (Some body) None"

definition deleteApprovalCheck :: "('p, 'q, 'r) APICore \<Rightarrow> 'p \<Rightarrow> (('p, 'q, 'd) sdk_event list, 'r) act" where
  "deleteApprovalCheck core metadata =
     core_fetch core ''/v3/approval/{lockbox_id}'' ''delete'' (Some metadata) None"

definition getApprovalCheck :: "('p, 'q, 'r) APICore \<Rightarrow> 'p \<Rightarrow> (('p, 'q, 'd) sdk_event list, 'r) act" where
  "getApprovalCheck core metadata =
     core_fetch core ''/v3/approval/{lockbox_id}'' ''get'' (Some metadata) None"

definition putApprovalCheck :: "('p, 'q, 'r) APICore \<Rightarrow> 'p \<Rightarrow> 'q \<Rightarrow> (('p, 'q, 'd) sdk_event list, 'r) act" where
  "putApprovalCheck core body metadata =
     core_fetch core ''/v3/approval/{lockbox_id}'' ''put'' (Some body) (Some metadata)"

definition getApprovalAttachment :: "('p, 'q, 'r) APICore \<Rightarrow> 'p \<Rightarrow> (('p, 'q, 'd) sdk_event list, 'r) act" where
  "getApprovalAttachment core metadata =
     core_fetch core ''/v3/approval/{lockbox_id}/attachment'' ''get'' (Some metadata) None"

definition getChecks :: "('p, 'q, 'r) APICore \<Rightarrow> 'p option \<Rightarrow> (('p, 'q, 'd) sdk_event list, 'r) act" where
  "getChecks core metadata =
     core_fetch core ''/v3/check'' ''get'' metadata None"

definition postCheckDeposit :: "('p, 'q, 'r) APICore \<Rightarrow> 'p \<Rightarrow> 'q \<Rightarrow> (('p, 'q, 'd) sdk_event list, 'r) act" where
  "postCheckDeposit core body metadata =
     core_fetch core ''/v3/check/deposit/{check_id}'' ''post'' (Some body) (Some metadata)"

definition postCheckDigital :: "('p, 'q, 'r) APICore \<Rightarrow> 'p \<Rightarrow> (('p, 'q, 'd) sdk_event list, 'r) act" where
  "postCheckDigital core body =
     core_fetch core ''/v3/check/digital'' ''post'' (Some body) None"

definition postCheckEndorse :: "('p, 'q, 'r) APICore \<Rightarrow> 'p \<Rightarrow> 'q \<Rightarrow> (('p, 'q, 'd) sdk_event list, 'r) act" where
  "postCheckEndorse core body metadata =
     core_fetch core ''/v3/check/endorse/{check_id}'' ''post'' (Some body) (Some metadata)"

definition postCheckMulti :: "('p, 'q, 'r) APICore \<Rightarrow> 'p \<Rightarrow> (('p, 'q, 'd) sdk_event list, 'r) act" where
  "postCheckMulti core body =
     core_fetch core ''/v3/check/multi'' ''post'' (Some body) None"

definition postCheckPhysical :: "('p, 'q, 'r) APICore \<Rightarrow> 'p \<Rightarrow> (('p, 'q, 'd) sdk_event list, 'r) act" where
  "postCheckPhysical core body =
     core_fetch core ''/v3/check/physical'' ''post'' (Some body) None"

definition postCheckPreview :: "('p, 'q, 'r) APICore \<Rightarrow> 'p \<Rightarrow> (('p, 'q, 'd) sdk_event list, 'r) act" where
  "postCheckPreview core body =
     core_fetch core ''/v3/check/preview'' ''post'' (Some body) None"

definition postCheckPrint :: "('p, 'q, 'r) APICore \<Rightarrow> 'p \<Rightarrow> (('p, 'q, 'd) sdk_event list, 'r) act" where
  "postCheckPrint core metadata =
     core_fetch core ''/v3/check/print/{check_id}'' ''post'' (Some metadata) None"

definition post_check_webhook :: "('p, 'q, 'r) APICore \<Rightarrow> 'p \<Rightarrow> 'q \<Rightarrow> (('p, 'q, 'd) sdk_event list, 'r) act" where
  "post_check_webhook core body metadata =
     core_fetch core ''/v3/check/webhook/{check_id}'' ''put'' (Some body) (Some metadata)"

definition deleteCheck :: "('p, 'q, 'r) APICore \<Rightarrow> 'p \<Rightarrow> (('p, 'q, 'd) sdk_event list, 'r) act" where
  "deleteCheck core metadata =
     core_fetch core ''/v3/check/{check_id}'' ''delete'' (Some metadata) None"

definition getCheck :: "('p, 'q, 'r) APICore \<Rightarrow> 'p \<Rightarrow> (('p, 'q, 'd) sdk_event list, 'r) act" where
  "getCheck core metadata =
     core_fetch core ''/v3/check/{check_id}'' ''get'' (Some metadata) None"

definition getCheckAttachment :: "('p, 'q, 'r) APICore \<Rightarrow> 'p \<Rightarrow> (('p, 'q, 'd) sdk_event list, 'r) act" where
  "getCheckAttachment core metadata =
     core_fetch core ''/v3/check/{check_id}/attachment'' ''get'' (Some metadata) None"

definition getCheckDeposit :: "('p, 'q, 'r) APICore \<Rightarrow> 'p \<Rightarrow> (('p, 'q, 'd) sdk_event list, 'r) act" where
  "getCheckDeposit core metadata =
     core_fetch core ''/v3/check/{check_id}/deposit'' ''get'' (Some metadata) None"

definition getCheckFail :: "('p, 'q, 'r) APICore \<Rightarrow> 'p \<Rightarrow> (('p, 'q, 'd) sdk_event list, 'r) act" where
  "getCheckFail core metadata =
     core_fetch core ''/v3/check/{check_id}/fail'' ''get'' (Some metadata) None"

definition getCheckTracking :: "('p, 'q, 'r) APICore \<Rightarrow> 'p \<Rightarrow> (('p, 'q, 'd) sdk_event list, 'r) act" where
  "getCheckTracking core metadata =
     core_fetch core ''/v3/check/{check_id}/tracking'' ''get'' (Some metadata) None"

definition getDirectory :: "('p, 'q, 'r) APICore \<Rightarrow> 'p option \<Rightarrow> (('p, 'q, 'd) sdk_event list, 'r) act" where
  "getDirectory core metadata =
     core_fetch core ''/v3/directory'' ''get'' metadata None"

definition createDirectory :: "('p, 'q, 'r) APICore \<Rightarrow> 'p \<Rightarrow> (('p, 'q, 'd) sdk_event list, 'r) act" where
  "createDirectory core body =
     core_fetch core ''/v3/directory'' ''post'' (Some body) None"

definition deleteDirectory :: "('p, 'q, 'r) APICore \<Rightarrow> 'p \<Rightarrow> (('p, 'q, 'd) sdk_event list, 'r) act" where
  "deleteDirectory core metadata =
     core_fetch core ''/v3/directory/{directory_id}'' ''delete'' (Some metadata) None"

definition updateDirectory :: "('p, 'q, 'r) APICore \<Rightarrow> 'p \<Rightarrow> 'q \<Rightarrow> (('p, 'q, 'd) sdk_event list, 'r) act" where
  "updateDirectory core body metadata =
     core_fetch core ''/v3/directory/{directory_id}'' ''put'' (Some body) (Some metadata)"

definition createDirectoryBank :: "('p, 'q, 'r) APICore \<Rightarrow> 'p \<Rightarrow> 'q \<Rightarrow> (('p, 'q, 'd) sdk_event list, 'r) act" where
  "createDirectoryBank core body metadata =
     core_fetch core ''/v3/directory/{directory_id}/account/bank'' ''post'' (Some body) (Some metadata)"

definition createDirectoryCard :: "('p, 'q, 'r) APICore \<Rightarrow> 'p \<Rightarrow> 'q \<Rightarrow> (('p, 'q, 'd) sdk_event list, 'r) act" where
  "createDirectoryCard core body metadata =
     core_fetch core ''/v3/directory/{directory_id}/account/card'' ''post'' (Some body) (Some metadata)"

definition deleteDirectoryAccount :: "('p, 'q, 'r) APICore \<Rightarrow> 'p \<Rightarrow> (('p, 'q, 'd) sdk_event list, 'r) act" where
  "deleteDirectoryAccount core metadata =
     core_fetch core ''/v3/directory/{directory_id}/account/{account_id}'' ''delete'' (Some metadata) None"

definition getInvoices :: "('p, 'q, 'r) APICore \<Rightarrow> 'p option \<Rightarrow> (('p, 'q, 'd) sdk_event list, 'r) act" where
  "getInvoices core metadata =
     core_fetch core ''/v3/invoice'' ''get'' metadata None"

definition postInvoice :: "('p, 'q, 'r) APICore \<Rightarrow> 'p \<Rightarrow> (('p, 'q, 'd) sdk_event list, 'r) act" where
  "postInvoice core body =
     core_fetch core ''/v3/invoice'' ''post'' (Some body) None"

definition postInvoicePayment :: "('p, 'q, 'r) APICore \<Rightarrow> 'p \<Rightarrow> (('p, 'q, 'd) sdk_event list, 'r) act" where
  "postInvoicePayment core body =
     core_fetch core ''/v3/invoice/payment'' ''post'' (Some body) None"

definition deleteInvoice :: "('p, 'q, 'r) APICore \<Rightarrow> 'p \<Rightarrow> (('p, 'q, 'd) sdk_event list, 'r) act" where
  "deleteInvoice core metadata =
     core_fetch core ''/v3/invoice/{invoice_id}'' ''delete'' (Some metadata) None"

definition getInvoice :: "('p, 'q, 'r) APICore \<Rightarrow> 'p \<Rightarrow> (('p, 'q, 'd) sdk_event list, 'r) act" where
  "getInvoice core metadata =
     core_fetch core ''/v3/invoice/{invoice_id}'' ''get'' (Some metadata) None"

definition getInvoiceAttachment :: "('p, 'q, 'r) APICore \<Rightarrow> 'p \<Rightarrow> (('p, 'q, 'd) sdk_event list, 'r) act" where
  "getInvoiceAttachment core metadata =
     core_fetch core ''/v3/invoice/{invoice_id}/attachment'' ''get'' (Some metadata) None"

definition getSubscriptions :: "('p, 'q, 'r) APICore \<Rightarrow> 'p option \<Rightarrow> (('p, 'q, 'd) sdk_event list, 'r) act" where
  "getSubscriptions core metadata =
     core_fetch core ''/v3/subscription'' ''get'' metadata None"

definition postSubscriptionCheck :: "('p, 'q, 'r) APICore \<Rightarrow> 'p \<Rightarrow> (('p, 'q, 'd) sdk_event list, 'r) act" where
  "postSubscriptionCheck core body =
     core_fetch core ''/v3/subscription/check'' ''post'' (Some body) None"

definition postSubscriptionInvoice :: "('p, 'q, 'r) APICore \<Rightarrow> 'p \<Rightarrow> (('p, 'q, 'd) sdk_event list, 'r) act" where
  "postSubscriptionInvoice core body =
     core_fetch core ''/v3/subscription/invoice'' ''post'' (Some body) None"

definition deleteSubscription :: "('p, 'q, 'r) APICore \<Rightarrow> 'p \<Rightarrow> (('p, 'q, 'd) sdk_event list, 'r) act" where
  "deleteSubscription core metadata =
     core_fetch core ''/v3/subscription/{subscription_id}'' ''delete'' (Some metadata) None"

definition getSubscription :: "('p, 'q, 'r) APICore \<Rightarrow> 'p \<Rightarrow> (('p, 'q, 'd) sdk_event list, 'r) act" where
  "getSubscription core metadata =
     core_fetch core ''/v3/subscription/{subscription_id}'' ''get'' (Some metadata) None"

definition putSubscription :: "('p, 'q, 'r) APICore \<Rightarrow> 'p \<Rightarrow> 'q \<Rightarrow> (('p, 'q, 'd) sdk_event list, 'r) act" where
  "putSubscription core body metadata =
     core_fetch core ''/v3/subscription/{subscription_id}'' ''put'' (Some body) (Some metadata)"

definition getUser :: "('p, 'q, 'r) APICore \<Rightarrow> (('p, 'q, 'd) sdk_event list, 'r) act" where
  "getUser core =
     core_fetch core ''/v3/user'' ''get'' None None"

definition postUser :: "('p, 'q, 'r) APICore \<Rightarrow> 'p \<Rightarrow> (('p, 'q, 'd) sdk_event list, 'r) act" where
  "postUser core body =
     core_fetch core ''/v3/user'' ''post'' (Some body) None"

definition putUser :: "('p, 'q, 'r) APICore \<Rightarrow> 'p \<Rightarrow> (('p, 'q, 'd) sdk_event list, 'r) act" where
  "putUser core body =
     core_fetch core ''/v3/user'' ''put'' (Some body) None"

definition getApiKeys :: "('p, 'q, 'r) APICore \<Rightarrow> (('p, 'q, 'd) sdk_event list, 'r) act" where
  "getApiKeys core =
     core_fetch core ''/v3/user/api_key'' ''get'' None None"

definition newApiKey :: "('p, 'q, 'r) APICore \<Rightarrow> 'p \<Rightarrow> (('p, 'q, 'd) sdk_event list, 'r) act" where
  "newApiKey core body =
     core_fetch core ''/v3/user/api_key'' ''post'' (Some body) None"

definition deleteApiKey :: "('p, 'q, 'r) APICore \<Rightarrow> 'p \<Rightarrow> (('p, 'q, 'd) sdk_event list, 'r) act" where
  "deleteApiKey core metadata =
     core_fetch core ''/v3/user/api_key/{key_id}'' ''delete'' (Some metadata) None"

definition getUsers :: "('p, 'q, 'r) APICore \<Rightarrow> 'p option \<Rightarrow> (('p, 'q, 'd) sdk_event list, 'r) act" where
  "getUsers core metadata =
     core_fetch core ''/v3/user/list'' ''get'' metadata None"

definition postUserSignature :: "('p, 'q, 'r) APICore \<Rightarrow> 'p \<Rightarrow> (('p, 'q, 'd) sdk_event list, 'r) act" where
  "postUserSignature core body =
     core_fetch core ''/v3/user/signature'' ''post'' (Some body) None"

definition deleteUser :: "('p, 'q, 'r) APICore \<Rightarrow> 'p \<Rightarrow> (('p, 'q, 'd) sdk_event list, 'r) act" where
  "deleteUser core metadata =
     core_fetch core ''/v3/user/{user_id}'' ''delete'' (Some metadata) None"

section \<open>Checkbook actions (second module of src/components/AuthForm.tsx)\<close>

record 'd FetchResponse =
  data :: 'd
  status :: nat

record PostUserBodyParam =
  name :: string
  user_id :: string

record PostBankPlaidBodyParam =
  processor_token :: string

text \<open>A template literal renders a missing environment variable as \<^verbatim>\<open>undefined\<close>.\<close>

definition template :: "string option \<Rightarrow> string" where
  "template v = (case v of None \<Rightarrow> ''undefined'' | Some s \<Rightarrow> s)"

definition thenP :: "('s, 'a) act \<Rightarrow> ('a \<Rightarrow> ('s, 'b) act) \<Rightarrow> ('s, 'b) act" where
  "thenP p f = bindA p f"

definition catchP :: "('s, 'a) act \<Rightarrow> (exn \<Rightarrow> ('s, 'a) act) \<Rightarrow> ('s, 'a) act" where
  "catchP p h = tryCatch p h"

definition unhandled :: "exn \<Rightarrow> ('p, 'q, 'd) sdk_event list \<Rightarrow> ('p, 'q, 'd) sdk_event list" where
  "unhandled e tr = tr @ [UnhandledRejection e]"

definition console_log_data :: "'d \<Rightarrow> (('p, 'q, 'd) sdk_event list, unit) act" where
  "console_log_data d tr = (Inr (), tr @ [ConsoleLogData d])"

definition sdk_console :: "console_event \<Rightarrow> (('p, 'q, 'd) sdk_event list, unit) act" where
  "sdk_console c tr = (Inr (), tr @ [SdkConsole c])"

text \<open>
  \<^verbatim>\<open>createCheckbookCustomer\<close>: the promise of \<^verbatim>\<open>sdk.postUser(...).then(...)\<close> is neither
  awaited nor returned, and the function has no \<^verbatim>\<open>return\<close> statement.
\<close>

definition createCheckbookCustomer ::
  "(PostUserBodyParam, 'q, 'd FetchResponse) APICore \<Rightarrow> string option \<Rightarrow> string option
     \<Rightarrow> 'z customer_name_email_scheme
     \<Rightarrow> ((PostUserBodyParam, 'q, 'd) sdk_event list, 'x ret) act" where
  "createCheckbookCustomer core api_key api_secret newCustomer =
     bindA
       (tryCatch
          (bindA (auth [template api_key @ '':'' @ template api_secret]) (\<lambda>_.
           floating unhandled
             (thenP (postUser core
                       \<lparr>name = firstName newCustomer @ ''_'' @ lastName newCustomer,
                        user_id = email newCustomer\<rparr>)
                (\<lambda>response.
                   bindA (console_log_data (data response)) (\<lambda>_.
                   returnA (data response))))))
          (\<lambda>err. sdk_console (ConsoleError ''Creating a Checkbook Customer Failed: '' err)))
       (\<lambda>_. returnA Undefined)"

definition connectToBankPlaid ::
  "(PostBankPlaidBodyParam, 'q, 'd FetchResponse) APICore \<Rightarrow> string option \<Rightarrow> string option
     \<Rightarrow> string \<Rightarrow> ((PostBankPlaidBodyParam, 'q, 'd) sdk_event list, 'x ret) act" where
  "connectToBankPlaid core api_key api_secret plaidToken =
     bindA (auth [template api_key @ '':'' @ template api_secret]) (\<lambda>_.
     bindA (floating unhandled
              (catchP
                 (thenP (postBankPlaid core \<lparr>processor_token = plaidToken\<rparr>)
                    (\<lambda>response. console_log_data (data response)))
                 (\<lambda>err. sdk_console (ConsoleError1 err)))) (\<lambda>_.
     returnA Undefined))"

section \<open>Payment-network actions (second module of src/components/AuthForm.tsx)\<close>

record AddFundingSourceParams =
  dwollaCustomerId :: string
  processorToken :: string
  bankName :: string

text \<open>The object \<^verbatim>\<open>fundingSourceOptions\<close>; \<open>links\<close> is its field \<^verbatim>\<open>_links\<close>.\<close>

record 'l FundingSourceOptions =
  customerId :: string
  fundingSourceName :: string
  plaidToken :: string
  links :: 'l

record 'a TransferParams =
  sourceFundingSourceUrl :: string
  destinationFundingSourceUrl :: string
  amount :: 'a

text \<open>The object \<^verbatim>\<open>requestBody\<close>: \<open>transfer_links\<close> is its field \<^verbatim>\<open>_links\<close>,
  \<open>transfer_amount\<close> its field \<^verbatim>\<open>amount\<close>, \<open>amount_value\<close> the field \<^verbatim>\<open>value\<close> of the latter.\<close>

record link =
  href :: string

record transfer_endpoints =
  source :: link
  destination :: link

record 'a money =
  currency :: string
  amount_value :: 'a

record 'a transfer_body =
  transfer_links :: transfer_endpoints
  transfer_amount :: "'a money"

record response =
  headers :: "string \<rightharpoonup> string"

text \<open>
  \<^verbatim>\<open>createOnDemandAuthorization\<close>, \<^verbatim>\<open>createFundingSource\<close> and \<^verbatim>\<open>dwollaClient\<close> are used
  but neither defined nor imported in the module; they are parameters, each the settlement
  of the promise it returns.
\<close>

record ('l, 'f, 'a) dwolla =
  createOnDemandAuthorization :: "exn + 'l"
  createFundingSource :: "'l FundingSourceOptions \<Rightarrow> exn + 'f"
  dwollaClient_post :: "string \<Rightarrow> 'a transfer_body \<Rightarrow> exn + response"

datatype ('l, 'a) dwolla_event =
    CreateOnDemandAuthorization
  | CreateFundingSource "'l FundingSourceOptions"
  | DwollaPost string "'a transfer_body"
  | DwollaConsole console_event

definition dwolla_call :: "('l, 'a) dwolla_event \<Rightarrow> exn + 'b \<Rightarrow> (('l, 'a) dwolla_event list, 'b) act" where
  "dwolla_call ev r tr = (r, tr @ [ev])"

definition dwolla_console :: "console_event \<Rightarrow> (('l, 'a) dwolla_event list, unit) act" where
  "dwolla_console c tr = (Inr (), tr @ [DwollaConsole c])"

definition addFundingSource ::
  "('l, 'f, 'a) dwolla \<Rightarrow> AddFundingSourceParams \<Rightarrow> (('l, 'a) dwolla_event list, 'f ret) act" where
  "addFundingSource env p =
     tryCatch
       (bindA (dwolla_call CreateOnDemandAuthorization (createOnDemandAuthorization env))
          (\<lambda>dwollaAuthLinks.
        bindA (dwolla_call
                 (CreateFundingSource
                    \<lparr>customerId = dwollaCustomerId p, fundingSourceName = bankName p,
                     plaidToken = processorToken p, links = dwollaAuthLinks\<rparr>)
                 (createFundingSource env
                    \<lparr>customerId = dwollaCustomerId p, fundingSourceName = bankName p,
                     plaidToken = processorToken p, links = dwollaAuthLinks\<rparr>))
          (\<lambda>fundingSource.
        returnA (Value fundingSource))))
       (\<lambda>err. bindA (dwolla_console (ConsoleError ''Transfer fund failed: '' err)) (\<lambda>_.
          returnA Undefined))"

definition requestBody :: "'a TransferParams \<Rightarrow> 'a transfer_body" where
  "requestBody p =
     \<lparr>transfer_links =
        \<lparr>source = \<lparr>href = sourceFundingSourceUrl p\<rparr>,
         destination = \<lparr>href = destinationFundingSourceUrl p\<rparr>\<rparr>,
      transfer_amount = \<lparr>currency = ''USD'', amount_value = amount p\<rparr>\<rparr>"

text \<open>\<^verbatim>\<open>res.headers.get("location")\<close> is \<^verbatim>\<open>null\<close> when the header is absent.\<close>

definition headers_get :: "response \<Rightarrow> string \<Rightarrow> string ret" where
  "headers_get res h = (case headers res h of None \<Rightarrow> Null | Some v \<Rightarrow> Value v)"

definition createTransfer ::
  "('l, 'f, 'a) dwolla \<Rightarrow> 'a TransferParams \<Rightarrow> (('l, 'a) dwolla_event list, string ret) act" where
  "createTransfer env p =
     tryCatch
       (thenP (dwolla_call (DwollaPost ''transfers'' (requestBody p))
                 (dwollaClient_post env ''transfers'' (requestBody p)))
          (\<lambda>res. returnA (headers_get res ''location'')))
       (\<lambda>err. bindA (dwolla_console (ConsoleError ''Transfer fund failed: '' err)) (\<lambda>_.
          returnA Undefined))"

text \<open>
  Modelled from the spec: the helper \<^verbatim>\<open>createOnDemandAuthorization\<close> is not defined in the
  module. By the uniform pattern of the spec (every external call is wrapped in a
  \<^verbatim>\<open>try/catch\<close> that logs the error and returns an undefined result), a helper whose
  request to the payment network settles as \<open>r\<close> resolves to the links of the response,
  or to \<open>undefined\<close> when the request failed; it never rejects.
\<close>

definition swallowed :: "exn + 'l \<Rightarrow> exn + 'l ret" where
  "swallowed r = (case r of Inl e \<Rightarrow> Inr Undefined | Inr l \<Rightarrow> Inr (Value l))"

section \<open>Concrete vendors for the examples\<close>

definition demo_session :: Session where
  "demo_session = \<lparr>session_id = ''s-1'', secret = ''tok-1''\<rparr>"

definition demo_user :: User where
  "demo_user = \<lparr>User_id = ''u-1'', User_name = ''Ada Lovelace'', User_email = ''ada@example.org''\<rparr>"

text \<open>An account that accepts one password; \<open>up\<close> tells whether the provider answers
  the calls of a session client.\<close>

definition demo_account :: "bool \<Rightarrow> Account" where
  "demo_account up =
     \<lparr>createEmailPasswordSession =
        (\<lambda>em pw. if pw = ''correct horse'' then Inr demo_session
                  else Inl (Exn ''Invalid credentials'')),
      create = (\<lambda>uid em pw nm. Inr demo_user),
      deleteSession = (\<lambda>sid. if up then Inr () else Inl (Exn ''Service unavailable'')),
      get = (if up then Inr demo_user else Inl (Exn ''Service unavailable''))\<rparr>"

definition demo_appwrite :: "bool \<Rightarrow> appwrite" where
  "demo_appwrite up =
     \<lparr>createAdminClient = Inr (demo_account up),
      createSessionClient =
        (\<lambda>j. case j ''appwrite-session'' of None \<Rightarrow> Inl (Exn ''No session'')
              | Some c \<Rightarrow> Inr (demo_account up)),
      ID_unique = ''unique-1''\<rparr>"

definition strict_options :: cookie_options where
  "strict_options = \<lparr>path = ''/'', httpOnly = True, sameSite = ''strict'', secure = True\<rparr>"

definition fresh_world :: world where
  "fresh_world = \<lparr>jar = Map.empty, trace = []\<rparr>"

definition logged_in_world :: world where
  "logged_in_world = \<lparr>jar = [''appwrite-session'' \<mapsto> (''tok-1'', strict_options)], trace = []\<rparr>"

definition ada :: SignUpParams where
  "ada = \<lparr>firstName = ''Ada'', lastName = ''Lovelace'', email = ''ada@example.org'',
          password = ''correct horse'', address1 = ''1 Main St'', city = ''London'',
          state = ''LN'', postalCode = ''12345'', dateOfBirth = ''1815-12-10'',
          ssn = ''1234''\<rparr>"

definition demo_dwolla :: "(string, string, int) dwolla" where
  "demo_dwolla =
     \<lparr>createOnDemandAuthorization = Inr ''on-demand-links'',
      createFundingSource =
        (\<lambda>opts. if plaidToken opts = [] then Inl (Exn ''Invalid token'')
                 else Inr ''funding-sources/1''),
      dwollaClient_post =
        (\<lambda>url body. Inr \<lparr>headers = [''location'' \<mapsto> ''transfers/1'']\<rparr>)\<rparr>"

definition down_dwolla :: "(string, string, int) dwolla" where
  "down_dwolla =
     \<lparr>createOnDemandAuthorization = Inl (Exn ''Unauthorized''),
      createFundingSource = (\<lambda>opts. Inr ''funding-sources/1''),
      dwollaClient_post = (\<lambda>url body. Inl (Exn ''Bad gateway''))\<rparr>"

text \<open>A payment network that refuses the grant, behind a helper that swallows the
  failure.\<close>

definition swallowing_dwolla :: "(string ret, string, int) dwolla" where
  "swallowing_dwolla =
     \<lparr>createOnDemandAuthorization = swallowed (Inl (Exn ''Unauthorized'')),
      createFundingSource = (\<lambda>opts. Inr ''funding-sources/1''),
      dwollaClient_post = (\<lambda>url body. Inl (Exn ''Bad gateway''))\<rparr>"

text \<open>A payment network whose response to a transfer has no headers.\<close>

definition bare_dwolla :: "(string, string, int) dwolla" where
  "bare_dwolla =
     \<lparr>createOnDemandAuthorization = Inr ''on-demand-links'',
      createFundingSource = (\<lambda>opts. Inr ''funding-sources/1''),
      dwollaClient_post = (\<lambda>url body. Inr \<lparr>headers = Map.empty\<rparr>)\<rparr>"

definition demo_funding :: AddFundingSourceParams where
  "demo_funding = \<lparr>dwollaCustomerId = ''customers/7'', processorToken = ''processor-abc'',
                   bankName = ''Checking''\<rparr>"

definition demo_core :: "bool \<Rightarrow> ('p, unit, string FetchResponse) APICore" where
  "demo_core up =
     \<lparr>fetch = (\<lambda>pth meth a b. if up then Inr \<lparr>data = ''created'', status = 201\<rparr>
                               else Inl (Exn ''Bad gateway''))\<rparr>"

section \<open>Evaluation rules of the combinators\<close>

lemma bindA_Inr: "m s = (Inr x, s') \<Longrightarrow> bindA m f s = f x s'"
  by (simp add: bindA_def)

lemma bindA_Inl: "m s = (Inl e, s') \<Longrightarrow> bindA m f s = (Inl e, s')"
  by (simp add: bindA_def)

lemma tryCatch_Inr: "m s = (Inr x, s') \<Longrightarrow> tryCatch m h s = (Inr x, s')"
  by (simp add: tryCatch_def)

lemma tryCatch_Inl: "m s = (Inl e, s') \<Longrightarrow> tryCatch m h s = h e s'"
  by (simp add: tryCatch_def)

lemmas act_defs =
  returnA_def bindA_def tryCatch_def floating_def vendor_def emit_def console_def
  cookies_set_def cookies_delete_def createAdminClientA_def createSessionClientA_def
  thenP_def catchP_def core_fetch_def auth_def unhandled_def console_log_data_def
  sdk_console_def dwolla_call_def dwolla_console_def

lemmas demo_defs =
  demo_session_def demo_user_def demo_account_def demo_appwrite_def strict_options_def
  fresh_world_def logged_in_world_def ada_def demo_dwolla_def down_dwolla_def
  swallowing_dwolla_def bare_dwolla_def
  demo_funding_def demo_core_def

section \<open>What each action does, case by case\<close>

text \<open>
  Each action unfolded: its result and the state it leaves, for every outcome of the
  calls it makes.
\<close>

lemma signIn_run:
  "signIn env parseStringify em pw w =
     (case createAdminClient env of
        Inl e \<Rightarrow>
          (Inr Undefined,
           w\<lparr>trace := trace w @ [CreateAdminClient, Console (ConsoleError ''Error'' e)]\<rparr>)
      | Inr account \<Rightarrow>
          (case createEmailPasswordSession account em pw of
             Inl e \<Rightarrow>
               (Inr Undefined,
                w\<lparr>trace := trace w @ [CreateAdminClient, CreateEmailPasswordSession em pw,
                                       Console (ConsoleError ''Error'' e)]\<rparr>)
           | Inr session \<Rightarrow>
               (Inr (Value (parseStringify session)),
                w\<lparr>jar := (jar w)(''appwrite-session'' \<mapsto>
                           (secret session,
                            \<lparr>path = ''/'', httpOnly = True, sameSite = ''strict'',
                             secure = True\<rparr>)),
                  trace := trace w @ [CreateAdminClient, CreateEmailPasswordSession em pw,
                             CookiesSet ''appwrite-session'' (secret session)
                               \<lparr>path = ''/'', httpOnly = True, sameSite = ''strict'',
                                secure = True\<rparr>]\<rparr>)))"
  by (simp add: signIn_def act_defs split: sum.splits)

lemma signUp_run:
  "signUp env parseStringify u w =
     (case createAdminClient env of
        Inl e \<Rightarrow>
          (Inr Undefined,
           w\<lparr>trace := trace w @ [CreateAdminClient, Console (ConsoleError ''Error'' e)]\<rparr>)
      | Inr account \<Rightarrow>
          (case create account (ID_unique env) (email u) (password u)
                  (firstName u @ '' '' @ lastName u) of
             Inl e \<Rightarrow>
               (Inr Undefined,
                w\<lparr>trace := trace w @
                    [CreateAdminClient,
                     AccountCreate (ID_unique env) (email u) (password u)
                       (firstName u @ '' '' @ lastName u),
                     Console (ConsoleError ''Error'' e)]\<rparr>)
           | Inr newUserAccount \<Rightarrow>
               (case createEmailPasswordSession account (email u) (password u) of
                  Inl e \<Rightarrow>
                    (Inr Undefined,
                     w\<lparr>trace := trace w @
                         [CreateAdminClient,
                          AccountCreate (ID_unique env) (email u) (password u)
                            (firstName u @ '' '' @ lastName u),
                          CreateEmailPasswordSession (email u) (password u),
                          Console (ConsoleError ''Error'' e)]\<rparr>)
                | Inr session \<Rightarrow>
                    (Inr (Value (parseStringify newUserAccount)),
                     w\<lparr>jar := (jar w)(''appwrite-session'' \<mapsto>
                                (secret session,
                                 \<lparr>path = ''/'', httpOnly = True, sameSite = ''strict'',
                                  secure = True\<rparr>)),
                       trace := trace w @
                         [CreateAdminClient,
                          AccountCreate (ID_unique env) (email u) (password u)
                            (firstName u @ '' '' @ lastName u),
                          CreateEmailPasswordSession (email u) (password u),
                          CookiesSet ''appwrite-session'' (secret session)
                            \<lparr>path = ''/'', httpOnly = True, sameSite = ''strict'',
                             secure = True\<rparr>]\<rparr>))))"
  by (simp add: signUp_def act_defs split: sum.splits)

lemma logoutAccount_run:
  "logoutAccount env w =
     (case createSessionClient env (jar w) of
        Inl e \<Rightarrow>
          (Inr Undefined,
           w\<lparr>trace := trace w @ [CreateSessionClient, Console (ConsoleError ''Error'' e)]\<rparr>)
      | Inr account \<Rightarrow>
          (case deleteSession account ''current'' of
             Inl e \<Rightarrow>
               (Inr Undefined,
                w\<lparr>jar := (jar w)(''appwrite-session'' := None),
                  trace := trace w @
                    [CreateSessionClient, CookiesDelete ''appwrite-session'',
                     DeleteSession ''current'', Console (ConsoleError ''Error'' e)]\<rparr>)
           | Inr response \<Rightarrow>
               (Inr (Value True),
                w\<lparr>jar := (jar w)(''appwrite-session'' := None),
                  trace := trace w @
                    [CreateSessionClient, CookiesDelete ''appwrite-session'',
                     DeleteSession ''current'']\<rparr>)))"
  by (simp add: logoutAccount_def act_defs split: sum.splits)

lemma getLoggedInUser_run:
  "getLoggedInUser env parseStringify w =
     (case createSessionClient env (jar w) of
        Inl e \<Rightarrow>
          (Inr Null,
           w\<lparr>trace := trace w @ [CreateSessionClient, Console (ConsoleLog e)]\<rparr>)
      | Inr account \<Rightarrow>
          (case get account of
             Inl e \<Rightarrow>
               (Inr Null,
                w\<lparr>trace := trace w @ [CreateSessionClient, AccountGet,
                                       Console (ConsoleLog e)]\<rparr>)
           | Inr result \<Rightarrow>
               (Inr (Value (parseStringify result)),
                w\<lparr>trace := trace w @ [CreateSessionClient, AccountGet]\<rparr>)))"
  by (simp add: getLoggedInUser_def act_defs split: sum.splits)

lemma getUserInfo_run: "getUserInfo userId w = (Inr Undefined, w)"
  by (simp add: getUserInfo_def act_defs)

lemma addFundingSource_run:
  "addFundingSource env p tr =
     (case createOnDemandAuthorization env of
        Inl e \<Rightarrow>
          (Inr Undefined,
           tr @ [CreateOnDemandAuthorization,
                 DwollaConsole (ConsoleError ''Transfer fund failed: '' e)])
      | Inr dwollaAuthLinks \<Rightarrow>
          (case createFundingSource env
                  \<lparr>customerId = dwollaCustomerId p, fundingSourceName = bankName p,
                   plaidToken = processorToken p, links = dwollaAuthLinks\<rparr> of
             Inl e \<Rightarrow>
               (Inr Undefined,
                tr @ [CreateOnDemandAuthorization,
                      CreateFundingSource
                        \<lparr>customerId = dwollaCustomerId p, fundingSourceName = bankName p,
                         plaidToken = processorToken p, links = dwollaAuthLinks\<rparr>,
                      DwollaConsole (ConsoleError ''Transfer fund failed: '' e)])
           | Inr fundingSource \<Rightarrow>
               (Inr (Value fundingSource),
                tr @ [CreateOnDemandAuthorization,
                      CreateFundingSource
                        \<lparr>customerId = dwollaCustomerId p, fundingSourceName = bankName p,
                         plaidToken = processorToken p, links = dwollaAuthLinks\<rparr>])))"
  by (simp add: addFundingSource_def act_defs split: sum.splits)

lemma createTransfer_run:
  "createTransfer env p tr =
     (case dwollaClient_post env ''transfers'' (requestBody p) of
        Inl e \<Rightarrow>
          (Inr Undefined,
           tr @ [DwollaPost ''transfers'' (requestBody p),
                 DwollaConsole (ConsoleError ''Transfer fund failed: '' e)])
      | Inr res \<Rightarrow>
          (Inr (headers_get res ''location''),
           tr @ [DwollaPost ''transfers'' (requestBody p)]))"
  by (simp add: createTransfer_def act_defs split: sum.splits)

lemma createCheckbookCustomer_run:
  "createCheckbookCustomer core api_key api_secret newCustomer tr =
     (Inr Undefined,
      tr @ [SetAuth [template api_key @ '':'' @ template api_secret],
            Fetch ''/v3/user'' ''post''
              (Some \<lparr>name = firstName newCustomer @ ''_'' @ lastName newCustomer,
                     user_id = email newCustomer\<rparr>) None,
            (case fetch core ''/v3/user'' ''post''
                    (Some \<lparr>name = firstName newCustomer @ ''_'' @ lastName newCustomer,
                           user_id = email newCustomer\<rparr>) None of
               Inl e \<Rightarrow> UnhandledRejection e
             | Inr response \<Rightarrow> ConsoleLogData (data response))])"
  by (simp add: createCheckbookCustomer_def postUser_def act_defs split: sum.splits)

lemma connectToBankPlaid_run:
  "connectToBankPlaid core api_key api_secret token tr =
     (Inr Undefined,
      tr @ [SetAuth [template api_key @ '':'' @ template api_secret],
            Fetch ''/v3/account/bank/iav/plaid'' ''post''
              (Some \<lparr>processor_token = token\<rparr>) None,
            (case fetch core ''/v3/account/bank/iav/plaid'' ''post''
                    (Some \<lparr>processor_token = token\<rparr>) None of
               Inl e \<Rightarrow> SdkConsole (ConsoleError1 e)
             | Inr response \<Rightarrow> ConsoleLogData (data response))])"
  by (simp add: connectToBankPlaid_def postBankPlaid_def act_defs split: sum.splits)

lemmas sdk_operation_defs =
  getBanks_def postBank_def postBankIav_def postBankPlaid_def getBankInstitutions_def
  postBankRelease_def postBankVerify_def deleteBank_def putBank_def getCards_def postCard_def
  deleteCard_def putCard_def get_paypal_def add_paypal_def remove_paypal_def put_paypal_def
  getVccs_def postVcc_def deleteVcc_def putVcc_def getVccTransaction_def get_venmo_def
  add_venmo_def remove_venmo_def put_venmo_def add_wallet_def get_zelle_def add_zelle_def
  put_zelle_def remove_zelle_def getApprovalChecks_def postApprovalDigital_def
  postApprovalMulti_def postApprovalPhysical_def postApprovalRelease_def
  deleteApprovalCheck_def getApprovalCheck_def putApprovalCheck_def getApprovalAttachment_def
  getChecks_def postCheckDeposit_def postCheckDigital_def postCheckEndorse_def
  postCheckMulti_def postCheckPhysical_def postCheckPreview_def postCheckPrint_def
  post_check_webhook_def deleteCheck_def getCheck_def getCheckAttachment_def
  getCheckDeposit_def getCheckFail_def getCheckTracking_def getDirectory_def
  createDirectory_def deleteDirectory_def updateDirectory_def createDirectoryBank_def
  createDirectoryCard_def deleteDirectoryAccount_def getInvoices_def postInvoice_def
  postInvoicePayment_def deleteInvoice_def getInvoice_def getInvoiceAttachment_def
  getSubscriptions_def postSubscriptionCheck_def postSubscriptionInvoice_def
  deleteSubscription_def getSubscription_def putSubscription_def getUser_def postUser_def
  putUser_def getApiKeys_def newApiKey_def deleteApiKey_def getUsers_def postUserSignature_def
  deleteUser_def

section \<open>Transfers\<close>

text \<open>
  C1. For every pair of funding-source references and every amount (of any type, so
  in particular zero and negative numbers: nothing is validated), \<open>createTransfer\<close>
  builds a request body whose amount carries the currency \<open>USD\<close> and the given value
  and whose links are the two references, posts it exactly once to \<open>transfers\<close>, and
  returns the \<open>location\<close> header of the response when the post succeeds (\<open>null\<close>
  when the response has no such header), or \<open>undefined\<close>, after logging the error,
  when it fails.
\<close>

theorem createTransfer_usd_request_once:
  "currency (transfer_amount (requestBody p)) = ''USD''
   \<and> amount_value (transfer_amount (requestBody p)) = amount p
   \<and> href (source (transfer_links (requestBody p))) = sourceFundingSourceUrl p
   \<and> href (destination (transfer_links (requestBody p))) = destinationFundingSourceUrl p
   \<and> snd (createTransfer env p tr) =
         tr @ DwollaPost ''transfers'' (requestBody p) #
           (case dwollaClient_post env ''transfers'' (requestBody p) of
              Inl e \<Rightarrow> [DwollaConsole (ConsoleError ''Transfer fund failed: '' e)]
            | Inr res \<Rightarrow> [])
   \<and> fst (createTransfer env p tr) =
         Inr (case dwollaClient_post env ''transfers'' (requestBody p) of
                Inl e \<Rightarrow> Undefined
              | Inr res \<Rightarrow>
                  (case headers res ''location'' of None \<Rightarrow> Null | Some v \<Rightarrow> Value v))"
  by (simp add: createTransfer_run requestBody_def headers_get_def split: sum.splits)

text \<open>A negative amount is sent as it is; the result is the header of the response, and
  \<open>null\<close> when the response carries none.\<close>

theorem createTransfer_usd_request_once_witness:
  "createTransfer demo_dwolla
     \<lparr>sourceFundingSourceUrl = ''funding-sources/1'',
      destinationFundingSourceUrl = ''funding-sources/2'', amount = - 5\<rparr> []
   = (Inr (Value ''transfers/1''),
      [DwollaPost ''transfers''
         \<lparr>transfer_links = \<lparr>source = \<lparr>href = ''funding-sources/1''\<rparr>,
                            destination = \<lparr>href = ''funding-sources/2''\<rparr>\<rparr>,
          transfer_amount = \<lparr>currency = ''USD'', amount_value = - 5\<rparr>\<rparr>])
   \<and> fst (createTransfer bare_dwolla
            \<lparr>sourceFundingSourceUrl = ''funding-sources/1'',
             destinationFundingSourceUrl = ''funding-sources/2'', amount = - 5\<rparr> [])
       = Inr Null"
  using createTransfer_usd_request_once
          [where env = demo_dwolla and tr = "[]"
             and p = "\<lparr>sourceFundingSourceUrl = ''funding-sources/1'',
                       destinationFundingSourceUrl = ''funding-sources/2'', amount = - 5\<rparr>"]
        createTransfer_usd_request_once
          [where env = bare_dwolla and tr = "[]"
             and p = "\<lparr>sourceFundingSourceUrl = ''funding-sources/1'',
                       destinationFundingSourceUrl = ''funding-sources/2'', amount = - 5\<rparr>"]
  by (simp add: prod_eq_iff requestBody_def demo_dwolla_def bare_dwolla_def)

section \<open>Adding a funding source\<close>

text \<open>
  C2, as stated, fails: \<open>addFundingSource\<close> never inspects what the authorization step
  resolves to. When the request for the grant fails and the helper, following the uniform
  pattern, swallows the failure and resolves to \<open>undefined\<close>, the funding-source creation
  is attempted all the same, with \<open>undefined\<close> links.
\<close>

theorem addFundingSource_swallowed_failure_still_creates:
  "createOnDemandAuthorization swallowing_dwolla = swallowed (Inl (Exn ''Unauthorized''))
   \<and> addFundingSource swallowing_dwolla demo_funding [] =
       (Inr (Value ''funding-sources/1''),
        [CreateOnDemandAuthorization,
         CreateFundingSource
           \<lparr>customerId = ''customers/7'', fundingSourceName = ''Checking'',
            plaidToken = ''processor-abc'', links = Undefined\<rparr>])"
  by (simp add: addFundingSource_run swallowing_dwolla_def swallowed_def demo_funding_def)

text \<open>
  C2, amended. When the awaited authorization step of \<open>addFundingSource\<close> rejects, the
  funding-source creation is not attempted: the only effects are the authorization request
  and the logged error, and the result is \<open>undefined\<close>. When the step resolves, whatever
  it resolves to (also \<open>undefined\<close>, after a failure the helper swallowed), the
  funding-source creation is attempted with that value as its links.
\<close>

theorem addFundingSource_stops_when_authorization_rejects:
  "(createOnDemandAuthorization env = Inl e
     \<longrightarrow> snd (addFundingSource env p tr) =
           tr @ [CreateOnDemandAuthorization,
                 DwollaConsole (ConsoleError ''Transfer fund failed: '' e)]
         \<and> (\<forall>opts. CreateFundingSource opts
                      \<notin> set (drop (length tr) (snd (addFundingSource env p tr))))
         \<and> fst (addFundingSource env p tr) = Inr Undefined)
   \<and> (createOnDemandAuthorization env = Inr dwollaAuthLinks
     \<longrightarrow> (\<exists>rest. snd (addFundingSource env p tr) =
           tr @ CreateOnDemandAuthorization
                # CreateFundingSource
                    \<lparr>customerId = dwollaCustomerId p, fundingSourceName = bankName p,
                     plaidToken = processorToken p, links = dwollaAuthLinks\<rparr>
                # rest))"
  by (simp add: addFundingSource_run split: sum.splits)

theorem addFundingSource_stops_when_authorization_rejects_witness:
  "createOnDemandAuthorization down_dwolla = Inl (Exn ''Unauthorized'')
   \<and> snd (addFundingSource down_dwolla demo_funding []) =
         [CreateOnDemandAuthorization,
          DwollaConsole (ConsoleError ''Transfer fund failed: '' (Exn ''Unauthorized''))]
   \<and> fst (addFundingSource down_dwolla demo_funding []) = Inr Undefined
   \<and> createOnDemandAuthorization swallowing_dwolla = Inr Undefined
   \<and> (\<exists>rest. snd (addFundingSource swallowing_dwolla demo_funding []) =
         CreateOnDemandAuthorization
           # CreateFundingSource
               \<lparr>customerId = ''customers/7'', fundingSourceName = ''Checking'',
                plaidToken = ''processor-abc'', links = Undefined\<rparr>
           # rest)"
proof -
  have a: "createOnDemandAuthorization down_dwolla = Inl (Exn ''Unauthorized'')"
    by (simp add: down_dwolla_def)
  have b: "createOnDemandAuthorization swallowing_dwolla = Inr Undefined"
    by (simp add: swallowing_dwolla_def swallowed_def)
  show ?thesis
    using a b
      addFundingSource_stops_when_authorization_rejects
        [of down_dwolla "Exn ''Unauthorized''" demo_funding "[]" "''on-demand-links''"]
      addFundingSource_stops_when_authorization_rejects
        [of swallowing_dwolla "Exn ''Unauthorized''" demo_funding "[]" Undefined]
    by (simp add: demo_funding_def)
qed

text \<open>
  C3. \<open>addFundingSource\<close> first requests the authorization grant, without
  parameters; then it submits a funding-source request made of exactly the customer id,
  the display name, the processor token and the links the grant step returned, and returns
  the created funding source. If either step fails, it logs the error and returns
  \<open>undefined\<close>.
\<close>

theorem addFundingSource_sequence:
  "(createOnDemandAuthorization env = Inr dwollaAuthLinks
      \<and> createFundingSource env
            \<lparr>customerId = dwollaCustomerId p, fundingSourceName = bankName p,
             plaidToken = processorToken p, links = dwollaAuthLinks\<rparr> = Inr fundingSource
     \<longrightarrow> addFundingSource env p tr =
           (Inr (Value fundingSource),
            tr @ [CreateOnDemandAuthorization,
                  CreateFundingSource
                    \<lparr>customerId = dwollaCustomerId p, fundingSourceName = bankName p,
                     plaidToken = processorToken p, links = dwollaAuthLinks\<rparr>]))
   \<and> (createOnDemandAuthorization env = Inr dwollaAuthLinks
      \<and> createFundingSource env
            \<lparr>customerId = dwollaCustomerId p, fundingSourceName = bankName p,
             plaidToken = processorToken p, links = dwollaAuthLinks\<rparr> = Inl e
     \<longrightarrow> addFundingSource env p tr =
           (Inr Undefined,
            tr @ [CreateOnDemandAuthorization,
                  CreateFundingSource
                    \<lparr>customerId = dwollaCustomerId p, fundingSourceName = bankName p,
                     plaidToken = processorToken p, links = dwollaAuthLinks\<rparr>,
                  DwollaConsole (ConsoleError ''Transfer fund failed: '' e)]))
   \<and> (createOnDemandAuthorization env = Inl e
     \<longrightarrow> addFundingSource env p tr =
           (Inr Undefined,
            tr @ [CreateOnDemandAuthorization,
                  DwollaConsole (ConsoleError ''Transfer fund failed: '' e)]))"
  by (simp add: addFundingSource_run)

theorem addFundingSource_sequence_witness:
  "createOnDemandAuthorization demo_dwolla = Inr ''on-demand-links''
   \<and> createFundingSource demo_dwolla
         \<lparr>customerId = ''customers/7'', fundingSourceName = ''Checking'',
          plaidToken = ''processor-abc'', links = ''on-demand-links''\<rparr> = Inr ''funding-sources/1''
   \<and> addFundingSource demo_dwolla demo_funding [] =
         (Inr (Value ''funding-sources/1''),
          [CreateOnDemandAuthorization,
           CreateFundingSource
             \<lparr>customerId = ''customers/7'', fundingSourceName = ''Checking'',
              plaidToken = ''processor-abc'', links = ''on-demand-links''\<rparr>])
   \<and> createFundingSource demo_dwolla
         \<lparr>customerId = ''customers/7'', fundingSourceName = ''Checking'',
          plaidToken = [], links = ''on-demand-links''\<rparr> = Inl (Exn ''Invalid token'')
   \<and> addFundingSource demo_dwolla (demo_funding\<lparr>processorToken := []\<rparr>) [] =
         (Inr Undefined,
          [CreateOnDemandAuthorization,
           CreateFundingSource
             \<lparr>customerId = ''customers/7'', fundingSourceName = ''Checking'',
              plaidToken = [], links = ''on-demand-links''\<rparr>,
           DwollaConsole (ConsoleError ''Transfer fund failed: '' (Exn ''Invalid token''))])
   \<and> createOnDemandAuthorization down_dwolla = Inl (Exn ''Unauthorized'')
   \<and> addFundingSource down_dwolla demo_funding [] =
         (Inr Undefined,
          [CreateOnDemandAuthorization,
           DwollaConsole (ConsoleError ''Transfer fund failed: '' (Exn ''Unauthorized''))])"
  using addFundingSource_sequence
          [of demo_dwolla "''on-demand-links''" demo_funding "''funding-sources/1''" "[]"
              "Exn ''Invalid token''"]
        addFundingSource_sequence
          [of demo_dwolla "''on-demand-links''" "demo_funding\<lparr>processorToken := []\<rparr>"
              "''funding-sources/1''" "[]" "Exn ''Invalid token''"]
        addFundingSource_sequence
          [of down_dwolla "''on-demand-links''" demo_funding "''funding-sources/1''" "[]"
              "Exn ''Unauthorized''"]
  by (simp add: demo_dwolla_def down_dwolla_def demo_funding_def)

section \<open>Logout\<close>

text \<open>
  C4. In every run of \<open>logoutAccount\<close>, a session deletion at the identity provider
  is preceded by the deletion of the \<open>appwrite-session\<close> cookie, and both are
  attempted, in that order, whenever the session client is obtained. The result is
  \<open>true\<close> exactly when the session client was obtained and the session deletion did
  not throw (the cookie is then gone); in every other case it is \<open>undefined\<close>.
\<close>

theorem logoutAccount_cookie_first_success_needs_both:
  "(\<forall>pre sid post.
       trace (snd (logoutAccount env w)) = trace w @ pre @ DeleteSession sid # post
       \<longrightarrow> CookiesDelete ''appwrite-session'' \<in> set pre)
   \<and> (\<forall>account. createSessionClient env (jar w) = Inr account
       \<longrightarrow> (\<exists>rest. trace (snd (logoutAccount env w)) =
                     trace w @ CreateSessionClient # CookiesDelete ''appwrite-session''
                       # DeleteSession ''current'' # rest))
   \<and> (fst (logoutAccount env w) = Inr (Value True)
        \<longleftrightarrow> (\<exists>account. createSessionClient env (jar w) = Inr account
                       \<and> deleteSession account ''current'' = Inr ()))
   \<and> (fst (logoutAccount env w) = Inr (Value True)
        \<longrightarrow> jar (snd (logoutAccount env w)) ''appwrite-session'' = None
            \<and> trace (snd (logoutAccount env w)) =
                 trace w @ [CreateSessionClient, CookiesDelete ''appwrite-session'',
                            DeleteSession ''current''])
   \<and> (fst (logoutAccount env w) \<noteq> Inr (Value True)
        \<longrightarrow> fst (logoutAccount env w) = Inr Undefined)"
proof (intro conjI)
  show "\<forall>pre sid post.
       trace (snd (logoutAccount env w)) = trace w @ pre @ DeleteSession sid # post
       \<longrightarrow> CookiesDelete ''appwrite-session'' \<in> set pre"
    by (auto simp: logoutAccount_run Cons_eq_append_conv split: sum.splits)
  show "\<forall>account. createSessionClient env (jar w) = Inr account
       \<longrightarrow> (\<exists>rest. trace (snd (logoutAccount env w)) =
                     trace w @ CreateSessionClient # CookiesDelete ''appwrite-session''
                       # DeleteSession ''current'' # rest)"
    by (simp add: logoutAccount_run split: sum.splits)
  show "fst (logoutAccount env w) = Inr (Value True)
        \<longleftrightarrow> (\<exists>account. createSessionClient env (jar w) = Inr account
                       \<and> deleteSession account ''current'' = Inr ())"
    by (simp add: logoutAccount_run split: sum.splits)
  show "fst (logoutAccount env w) = Inr (Value True)
        \<longrightarrow> jar (snd (logoutAccount env w)) ''appwrite-session'' = None
            \<and> trace (snd (logoutAccount env w)) =
                 trace w @ [CreateSessionClient, CookiesDelete ''appwrite-session'',
                            DeleteSession ''current'']"
    by (simp add: logoutAccount_run split: sum.splits)
  show "fst (logoutAccount env w) \<noteq> Inr (Value True)
        \<longrightarrow> fst (logoutAccount env w) = Inr Undefined"
    by (simp add: logoutAccount_run split: sum.splits)
qed

theorem logoutAccount_cookie_first_success_needs_both_witness:
  "createSessionClient (demo_appwrite True) (jar logged_in_world) = Inr (demo_account True)
   \<and> deleteSession (demo_account True) ''current'' = Inr ()
   \<and> fst (logoutAccount (demo_appwrite True) logged_in_world) = Inr (Value True)
   \<and> jar (snd (logoutAccount (demo_appwrite True) logged_in_world)) ''appwrite-session'' = None
   \<and> trace (snd (logoutAccount (demo_appwrite True) logged_in_world)) =
         [CreateSessionClient, CookiesDelete ''appwrite-session'', DeleteSession ''current'']
   \<and> createSessionClient (demo_appwrite True) (jar fresh_world) = Inl (Exn ''No session'')
   \<and> fst (logoutAccount (demo_appwrite True) fresh_world) = Inr Undefined"
proof -
  have a: "createSessionClient (demo_appwrite True) (jar logged_in_world)
             = Inr (demo_account True)"
    by (simp add: demo_appwrite_def logged_in_world_def)
  have b: "deleteSession (demo_account True) ''current'' = Inr ()"
    by (simp add: demo_account_def)
  have c: "createSessionClient (demo_appwrite True) (jar fresh_world) = Inl (Exn ''No session'')"
    by (simp add: demo_appwrite_def fresh_world_def)
  have d: "\<not> (\<exists>account. createSessionClient (demo_appwrite True) (jar fresh_world) = Inr account
                 \<and> deleteSession account ''current'' = Inr ())"
    by (simp add: c)
  show ?thesis
    using a b c d
      logoutAccount_cookie_first_success_needs_both [of "demo_appwrite True" logged_in_world]
      logoutAccount_cookie_first_success_needs_both [of "demo_appwrite True" fresh_world]
    by (auto simp: logged_in_world_def)
qed

section \<open>The session cookie\<close>

text \<open>
  C5. When the provider calls of \<open>signIn\<close> (respectively \<open>signUp\<close>) succeed, the
  action sets the cookie \<open>appwrite-session\<close> to the secret of the session the provider
  issued, with exactly the options \<open>path = /\<close>, \<open>httpOnly = true\<close>,
  \<open>sameSite = strict\<close>, \<open>secure = true\<close>, and touches no other cookie. Conversely,
  whenever either action returns something other than \<open>undefined\<close>, that cookie holds
  the secret of the issued session with these options.
\<close>

theorem session_cookie_attributes:
  "(createAdminClient env = Inr account
      \<and> createEmailPasswordSession account em pw = Inr session
     \<longrightarrow> fst (signIn env parseStringify em pw w) = Inr (Value (parseStringify session))
         \<and> jar (snd (signIn env parseStringify em pw w)) =
             (jar w)(''appwrite-session'' \<mapsto>
                (secret session,
                 \<lparr>path = ''/'', httpOnly = True, sameSite = ''strict'', secure = True\<rparr>))
         \<and> trace (snd (signIn env parseStringify em pw w)) =
             trace w @ [CreateAdminClient, CreateEmailPasswordSession em pw,
                        CookiesSet ''appwrite-session'' (secret session)
                          \<lparr>path = ''/'', httpOnly = True, sameSite = ''strict'',
                           secure = True\<rparr>])
   \<and> (createAdminClient env = Inr account
      \<and> create account (ID_unique env) (email u) (password u)
            (firstName u @ '' '' @ lastName u) = Inr newUserAccount
      \<and> createEmailPasswordSession account (email u) (password u) = Inr session
     \<longrightarrow> fst (signUp env parseStringify' u w) = Inr (Value (parseStringify' newUserAccount))
         \<and> jar (snd (signUp env parseStringify' u w)) =
             (jar w)(''appwrite-session'' \<mapsto>
                (secret session,
                 \<lparr>path = ''/'', httpOnly = True, sameSite = ''strict'', secure = True\<rparr>))
         \<and> trace (snd (signUp env parseStringify' u w)) =
             trace w @ [CreateAdminClient,
                        AccountCreate (ID_unique env) (email u) (password u)
                          (firstName u @ '' '' @ lastName u),
                        CreateEmailPasswordSession (email u) (password u),
                        CookiesSet ''appwrite-session'' (secret session)
                          \<lparr>path = ''/'', httpOnly = True, sameSite = ''strict'',
                           secure = True\<rparr>])
   \<and> (fst (signIn env parseStringify em pw w) \<noteq> Inr Undefined
     \<longrightarrow> (\<exists>a s. createAdminClient env = Inr a
               \<and> createEmailPasswordSession a em pw = Inr s
               \<and> jar (snd (signIn env parseStringify em pw w)) ''appwrite-session'' =
                   Some (secret s,
                         \<lparr>path = ''/'', httpOnly = True, sameSite = ''strict'',
                          secure = True\<rparr>)))
   \<and> (fst (signUp env parseStringify' u w) \<noteq> Inr Undefined
     \<longrightarrow> (\<exists>a s. createAdminClient env = Inr a
               \<and> createEmailPasswordSession a (email u) (password u) = Inr s
               \<and> jar (snd (signUp env parseStringify' u w)) ''appwrite-session'' =
                   Some (secret s,
                         \<lparr>path = ''/'', httpOnly = True, sameSite = ''strict'',
                          secure = True\<rparr>)))"
proof (intro conjI)
  show "fst (signIn env parseStringify em pw w) \<noteq> Inr Undefined
     \<longrightarrow> (\<exists>a s. createAdminClient env = Inr a
               \<and> createEmailPasswordSession a em pw = Inr s
               \<and> jar (snd (signIn env parseStringify em pw w)) ''appwrite-session'' =
                   Some (secret s,
                         \<lparr>path = ''/'', httpOnly = True, sameSite = ''strict'',
                          secure = True\<rparr>))"
    by (auto simp: signIn_run split: sum.splits)
  show "fst (signUp env parseStringify' u w) \<noteq> Inr Undefined
     \<longrightarrow> (\<exists>a s. createAdminClient env = Inr a
               \<and> createEmailPasswordSession a (email u) (password u) = Inr s
               \<and> jar (snd (signUp env parseStringify' u w)) ''appwrite-session'' =
                   Some (secret s,
                         \<lparr>path = ''/'', httpOnly = True, sameSite = ''strict'',
                          secure = True\<rparr>))"
    by (auto simp: signUp_run split: sum.splits)
qed (simp_all add: signIn_run signUp_run)

theorem session_cookie_attributes_witness:
  "createAdminClient (demo_appwrite True) = Inr (demo_account True)
   \<and> createEmailPasswordSession (demo_account True) ''ada@example.org'' ''correct horse''
       = Inr demo_session
   \<and> create (demo_account True) ''unique-1'' ''ada@example.org'' ''correct horse''
       ''Ada Lovelace'' = Inr demo_user
   \<and> fst (signIn (demo_appwrite True) id ''ada@example.org'' ''correct horse'' fresh_world)
       = Inr (Value demo_session)
   \<and> jar (snd (signIn (demo_appwrite True) id ''ada@example.org'' ''correct horse''
                  fresh_world)) ''appwrite-session''
       = Some (''tok-1'', strict_options)
   \<and> fst (signUp (demo_appwrite True) id ada fresh_world) = Inr (Value demo_user)
   \<and> jar (snd (signUp (demo_appwrite True) id ada fresh_world)) ''appwrite-session''
       = Some (''tok-1'', strict_options)"
proof -
  have a: "createAdminClient (demo_appwrite True) = Inr (demo_account True)"
    by (simp add: demo_appwrite_def)
  have b: "createEmailPasswordSession (demo_account True) ''ada@example.org''
             ''correct horse'' = Inr demo_session"
    by (simp add: demo_account_def)
  have c: "create (demo_account True) ''unique-1'' ''ada@example.org'' ''correct horse''
             ''Ada Lovelace'' = Inr demo_user"
    by (simp add: demo_account_def)
  have d: "ID_unique (demo_appwrite True) = ''unique-1''"
    by (simp add: demo_appwrite_def)
  have e: "secret demo_session = ''tok-1''"
    by (simp add: demo_session_def)
  show ?thesis
    using a b c d e
      session_cookie_attributes
        [of "demo_appwrite True" "demo_account True" "''ada@example.org''" "''correct horse''"
            demo_session id fresh_world ada demo_user id]
    by (simp add: ada_def strict_options_def)
qed

section \<open>Failure results of the server actions\<close>

text \<open>
  C6, as stated, fails for \<open>getLoggedInUser\<close>: when the provider call fails it
  returns \<open>null\<close>, not \<open>undefined\<close>.
\<close>

theorem getLoggedInUser_failure_is_null_not_undefined:
  "createSessionClient (demo_appwrite False) (jar logged_in_world) = Inr (demo_account False)
   \<and> get (demo_account False) = Inl (Exn ''Service unavailable'')
   \<and> fst (getLoggedInUser (demo_appwrite False) id logged_in_world) = Inr Null
   \<and> fst (getLoggedInUser (demo_appwrite False) id logged_in_world) \<noteq> Inr Undefined"
  by (simp add: getLoggedInUser_run demo_appwrite_def demo_account_def logged_in_world_def)

text \<open>
  C6, amended. When an external call fails: \<open>signIn\<close>, \<open>signUp\<close>,
  \<open>logoutAccount\<close>, \<open>addFundingSource\<close> and \<open>createTransfer\<close> log the error and
  return \<open>undefined\<close>; \<open>getLoggedInUser\<close> logs the error and returns \<open>null\<close>;
  \<open>connectToBankPlaid\<close> logs the error (in the \<open>catch\<close> of its promise chain) and
  resolves to \<open>undefined\<close>; \<open>createCheckbookCustomer\<close> resolves to \<open>undefined\<close>.
\<close>

theorem server_actions_failure_results:
  "(\<forall>e. createAdminClient env = Inl e
          \<or> (\<exists>a. createAdminClient env = Inr a \<and> createEmailPasswordSession a em pw = Inl e)
        \<longrightarrow> fst (signIn env parseStringify em pw w) = Inr Undefined
            \<and> last (trace (snd (signIn env parseStringify em pw w)))
                = Console (ConsoleError ''Error'' e))
   \<and> (\<forall>e. createAdminClient env = Inl e
          \<or> (\<exists>a. createAdminClient env = Inr a
                 \<and> create a (ID_unique env) (email u) (password u)
                       (firstName u @ '' '' @ lastName u) = Inl e)
          \<or> (\<exists>a nu. createAdminClient env = Inr a
                 \<and> create a (ID_unique env) (email u) (password u)
                       (firstName u @ '' '' @ lastName u) = Inr nu
                 \<and> createEmailPasswordSession a (email u) (password u) = Inl e)
        \<longrightarrow> fst (signUp env parseStringify' u w) = Inr Undefined
            \<and> last (trace (snd (signUp env parseStringify' u w)))
                = Console (ConsoleError ''Error'' e))
   \<and> (\<forall>e. createSessionClient env (jar w) = Inl e
          \<or> (\<exists>a. createSessionClient env (jar w) = Inr a \<and> deleteSession a ''current'' = Inl e)
        \<longrightarrow> fst (logoutAccount env w) = Inr Undefined
            \<and> last (trace (snd (logoutAccount env w))) = Console (ConsoleError ''Error'' e))
   \<and> (\<forall>e. createSessionClient env (jar w) = Inl e
          \<or> (\<exists>a. createSessionClient env (jar w) = Inr a \<and> get a = Inl e)
        \<longrightarrow> fst (getLoggedInUser env parseStringify' w) = Inr Null
            \<and> last (trace (snd (getLoggedInUser env parseStringify' w)))
                = Console (ConsoleLog e))
   \<and> (\<forall>e. createOnDemandAuthorization denv = Inl e
          \<or> (\<exists>l. createOnDemandAuthorization denv = Inr l
                 \<and> createFundingSource denv
                       \<lparr>customerId = dwollaCustomerId p, fundingSourceName = bankName p,
                        plaidToken = processorToken p, links = l\<rparr> = Inl e)
        \<longrightarrow> fst (addFundingSource denv p tr) = Inr Undefined
            \<and> last (snd (addFundingSource denv p tr))
                = DwollaConsole (ConsoleError ''Transfer fund failed: '' e))
   \<and> (\<forall>e. dwollaClient_post denv ''transfers'' (requestBody t) = Inl e
        \<longrightarrow> fst (createTransfer denv t tr) = Inr Undefined
            \<and> last (snd (createTransfer denv t tr))
                = DwollaConsole (ConsoleError ''Transfer fund failed: '' e))
   \<and> (\<forall>e. fetch core ''/v3/account/bank/iav/plaid'' ''post''
             (Some \<lparr>processor_token = token\<rparr>) None = Inl e
        \<longrightarrow> fst (connectToBankPlaid core api_key api_secret token str) = Inr Undefined
            \<and> last (snd (connectToBankPlaid core api_key api_secret token str))
                = SdkConsole (ConsoleError1 e))
   \<and> fst (createCheckbookCustomer core' api_key api_secret newCustomer str')
       = Inr Undefined"
proof (intro conjI)
  show "fst (createCheckbookCustomer core' api_key api_secret newCustomer str')
       = Inr Undefined"
    by (simp add: createCheckbookCustomer_run)
qed (auto simp: signIn_run signUp_run logoutAccount_run getLoggedInUser_run
       addFundingSource_run createTransfer_run connectToBankPlaid_run)

theorem server_actions_failure_results_witness:
  "createEmailPasswordSession (demo_account False) ''ada@example.org'' ''wrong''
     = Inl (Exn ''Invalid credentials'')
   \<and> fst (signIn (demo_appwrite False) id ''ada@example.org'' ''wrong'' logged_in_world)
       = Inr Undefined
   \<and> fst (signUp (demo_appwrite False) id (ada\<lparr>password := ''wrong''\<rparr>) logged_in_world)
       = Inr Undefined
   \<and> deleteSession (demo_account False) ''current'' = Inl (Exn ''Service unavailable'')
   \<and> fst (logoutAccount (demo_appwrite False) logged_in_world) = Inr Undefined
   \<and> get (demo_account False) = Inl (Exn ''Service unavailable'')
   \<and> fst (getLoggedInUser (demo_appwrite False) id logged_in_world) = Inr Null
   \<and> last (trace (snd (getLoggedInUser (demo_appwrite False) id logged_in_world)))
       = Console (ConsoleLog (Exn ''Service unavailable''))
   \<and> createOnDemandAuthorization down_dwolla = Inl (Exn ''Unauthorized'')
   \<and> fst (addFundingSource down_dwolla demo_funding []) = Inr Undefined
   \<and> fst (createTransfer down_dwolla
            \<lparr>sourceFundingSourceUrl = ''funding-sources/1'',
             destinationFundingSourceUrl = ''funding-sources/2'', amount = 10\<rparr> [])
       = Inr Undefined
   \<and> fst (connectToBankPlaid (demo_core False) None None ''processor-abc'' [])
       = Inr (Undefined :: unit ret)
   \<and> last (snd (connectToBankPlaid (demo_core False) None None ''processor-abc'' []))
       = SdkConsole (ConsoleError1 (Exn ''Bad gateway''))
   \<and> fst (createCheckbookCustomer (demo_core False) None None ada [])
       = Inr (Undefined :: unit ret)"
proof -
  have adm: "createAdminClient (demo_appwrite False) = Inr (demo_account False)"
    by (simp add: demo_appwrite_def)
  have ses: "createSessionClient (demo_appwrite False) (jar logged_in_world)
               = Inr (demo_account False)"
    by (simp add: demo_appwrite_def logged_in_world_def)
  have eps: "createEmailPasswordSession (demo_account False) ''ada@example.org'' ''wrong''
               = Inl (Exn ''Invalid credentials'')"
    by (simp add: demo_account_def)
  have crt: "create (demo_account False) (ID_unique (demo_appwrite False))
               (email (ada\<lparr>password := ''wrong''\<rparr>)) (password (ada\<lparr>password := ''wrong''\<rparr>))
               (firstName (ada\<lparr>password := ''wrong''\<rparr>) @ '' '' @
                lastName (ada\<lparr>password := ''wrong''\<rparr>)) = Inr demo_user"
    by (simp add: demo_account_def)
  have eps': "createEmailPasswordSession (demo_account False)
                (email (ada\<lparr>password := ''wrong''\<rparr>)) (password (ada\<lparr>password := ''wrong''\<rparr>))
                = Inl (Exn ''Invalid credentials'')"
    by (simp add: demo_account_def)
  have del: "deleteSession (demo_account False) ''current'' = Inl (Exn ''Service unavailable'')"
    by (simp add: demo_account_def)
  have gt: "get (demo_account False) = Inl (Exn ''Service unavailable'')"
    by (simp add: demo_account_def)
  have oda: "createOnDemandAuthorization down_dwolla = Inl (Exn ''Unauthorized'')"
    by (simp add: down_dwolla_def)
  have pst: "dwollaClient_post down_dwolla ''transfers''
               (requestBody \<lparr>sourceFundingSourceUrl = ''funding-sources/1'',
                  destinationFundingSourceUrl = ''funding-sources/2'', amount = 10\<rparr>)
               = Inl (Exn ''Bad gateway'')"
    by (simp add: down_dwolla_def)
  have ftc: "fetch (demo_core False) ''/v3/account/bank/iav/plaid'' ''post''
               (Some \<lparr>processor_token = ''processor-abc''\<rparr>) None = Inl (Exn ''Bad gateway'')"
    by (simp add: demo_core_def)
  note t = server_actions_failure_results
             [of "demo_appwrite False" "''ada@example.org''" "''wrong''" id logged_in_world
                 "ada\<lparr>password := ''wrong''\<rparr>" id down_dwolla demo_funding "[]"
                 "\<lparr>sourceFundingSourceUrl = ''funding-sources/1'',
                   destinationFundingSourceUrl = ''funding-sources/2'', amount = 10\<rparr>"
                 "demo_core False" "''processor-abc''" None None "[]"
                 "demo_core False" ada "[]"]
  have 1: "fst (signIn (demo_appwrite False) id ''ada@example.org'' ''wrong'' logged_in_world)
             = Inr Undefined"
    using t adm eps by blast
  have 2: "fst (signUp (demo_appwrite False) id (ada\<lparr>password := ''wrong''\<rparr>) logged_in_world)
             = Inr Undefined"
    using t adm crt eps' by blast
  have 3: "fst (logoutAccount (demo_appwrite False) logged_in_world) = Inr Undefined"
    using t ses del by blast
  have 4: "fst (getLoggedInUser (demo_appwrite False) id logged_in_world) = Inr Null
         \<and> last (trace (snd (getLoggedInUser (demo_appwrite False) id logged_in_world)))
             = Console (ConsoleLog (Exn ''Service unavailable''))"
    using t ses gt by blast
  have 5: "fst (addFundingSource down_dwolla demo_funding []) = Inr Undefined"
    using t oda by blast
  have 6: "fst (createTransfer down_dwolla
            \<lparr>sourceFundingSourceUrl = ''funding-sources/1'',
             destinationFundingSourceUrl = ''funding-sources/2'', amount = 10\<rparr> [])
       = Inr Undefined"
    using t pst by blast
  have 7: "fst (connectToBankPlaid (demo_core False) None None ''processor-abc'' [])
             = Inr (Undefined :: unit ret)
         \<and> last (snd (connectToBankPlaid (demo_core False) None None ''processor-abc'' []))
             = SdkConsole (ConsoleError1 (Exn ''Bad gateway''))"
    using t ftc by blast
  have 8: "fst (createCheckbookCustomer (demo_core False) None None ada [])
       = Inr (Undefined :: unit ret)"
    using t by blast
  show ?thesis
    using eps del gt oda 1 2 3 4 5 6 7 8 by simp
qed

section \<open>The generated client\<close>

text \<open>
  C7. Every operation of the generated client issues exactly one request through the
  core, to a fixed path with a fixed method, hands its arguments over unchanged, and
  returns what the core returns: nothing is inspected or transformed.
\<close>

theorem sdk_operations_mechanical:
  "getBanks core tr =
       (fetch core ''/v3/account/bank'' ''get'' None None,
        tr @ [Fetch ''/v3/account/bank'' ''get'' None None])
   \<and> postBank core body tr =
       (fetch core ''/v3/account/bank'' ''post'' (Some body) None,
        tr @ [Fetch ''/v3/account/bank'' ''post'' (Some body) None])
   \<and> postBankIav core body tr =
       (fetch core ''/v3/account/bank/iav'' ''post'' (Some body) None,
        tr @ [Fetch ''/v3/account/bank/iav'' ''post'' (Some body) None])
   \<and> postBankPlaid core body tr =
       (fetch core ''/v3/account/bank/iav/plaid'' ''post'' (Some body) None,
        tr @ [Fetch ''/v3/account/bank/iav/plaid'' ''post'' (Some body) None])
   \<and> getBankInstitutions core tr =
       (fetch core ''/v3/account/bank/institutions'' ''get'' None None,
        tr @ [Fetch ''/v3/account/bank/institutions'' ''get'' None None])
   \<and> postBankRelease core body tr =
       (fetch core ''/v3/account/bank/release'' ''post'' (Some body) None,
        tr @ [Fetch ''/v3/account/bank/release'' ''post'' (Some body) None])
   \<and> postBankVerify core body tr =
       (fetch core ''/v3/account/bank/verify'' ''post'' (Some body) None,
        tr @ [Fetch ''/v3/account/bank/verify'' ''post'' (Some body) None])
   \<and> deleteBank core metadata tr =
       (fetch core ''/v3/account/bank/{bank_id}'' ''delete'' (Some metadata) None,
        tr @ [Fetch ''/v3/account/bank/{bank_id}'' ''delete'' (Some metadata) None])
   \<and> putBank core body metadata2 tr =
       (fetch core ''/v3/account/bank/{bank_id}'' ''put'' (Some body) (Some metadata2),
        tr @ [Fetch ''/v3/account/bank/{bank_id}'' ''put'' (Some body) (Some metadata2)])
   \<and> getCards core tr =
       (fetch core ''/v3/account/card'' ''get'' None None,
        tr @ [Fetch ''/v3/account/card'' ''get'' None None])
   \<and> postCard core body tr =
       (fetch core ''/v3/account/card'' ''post'' (Some body) None,
        tr @ [Fetch ''/v3/account/card'' ''post'' (Some body) None])
   \<and> deleteCard core metadata tr =
       (fetch core ''/v3/account/card/{card_id}'' ''delete'' (Some metadata) None,
        tr @ [Fetch ''/v3/account/card/{card_id}'' ''delete'' (Some metadata) None])
   \<and> putCard core body metadata2 tr =
       (fetch core ''/v3/account/card/{card_id}'' ''put'' (Some body) (Some metadata2),
        tr @ [Fetch ''/v3/account/card/{card_id}'' ''put'' (Some body) (Some metadata2)])
   \<and> get_paypal core tr =
       (fetch core ''/v3/account/paypal'' ''get'' None None,
        tr @ [Fetch ''/v3/account/paypal'' ''get'' None None])
   \<and> add_paypal core body tr =
       (fetch core ''/v3/account/paypal'' ''post'' (Some body) None,
        tr @ [Fetch ''/v3/account/paypal'' ''post'' (Some body) None])
   \<and> remove_paypal core metadata tr =
       (fetch core ''/v3/account/paypal/{paypal_id}'' ''delete'' (Some metadata) None,
        tr @ [Fetch ''/v3/account/paypal/{paypal_id}'' ''delete'' (Some metadata) None])
   \<and> put_paypal core body metadata2 tr =
       (fetch core ''/v3/account/paypal/{paypal_id}'' ''put'' (Some body) (Some metadata2),
        tr @ [Fetch ''/v3/account/paypal/{paypal_id}'' ''put'' (Some body) (Some metadata2)])
   \<and> getVccs core tr =
       (fetch core ''/v3/account/vcc'' ''get'' None None,
        tr @ [Fetch ''/v3/account/vcc'' ''get'' None None])
   \<and> postVcc core body tr =
       (fetch core ''/v3/account/vcc'' ''post'' (Some body) None,
        tr @ [Fetch ''/v3/account/vcc'' ''post'' (Some body) None])
   \<and> deleteVcc core metadata tr =
       (fetch core ''/v3/account/vcc/{vcc_id}'' ''delete'' (Some metadata) None,
        tr @ [Fetch ''/v3/account/vcc/{vcc_id}'' ''delete'' (Some metadata) None])
   \<and> putVcc core body metadata2 tr =
       (fetch core ''/v3/account/vcc/{vcc_id}'' ''put'' (Some body) (Some metadata2),
        tr @ [Fetch ''/v3/account/vcc/{vcc_id}'' ''put'' (Some body) (Some metadata2)])
   \<and> getVccTransaction core metadata tr =
       (fetch core ''/v3/account/vcc/{vcc_id}/transaction'' ''get'' (Some metadata) None,
        tr @ [Fetch ''/v3/account/vcc/{vcc_id}/transaction'' ''get'' (Some metadata) None])
   \<and> get_venmo core tr =
       (fetch core ''/v3/account/venmo'' ''get'' None None,
        tr @ [Fetch ''/v3/account/venmo'' ''get'' None None])
   \<and> add_venmo core body tr =
       (fetch core ''/v3/account/venmo'' ''post'' (Some body) None,
        tr @ [Fetch ''/v3/account/venmo'' ''post'' (Some body) None])
   \<and> remove_venmo core metadata tr =
       (fetch core ''/v3/account/venmo/{venmo_id}'' ''delete'' (Some metadata) None,
        tr @ [Fetch ''/v3/account/venmo/{venmo_id}'' ''delete'' (Some metadata) None])
   \<and> put_venmo core body metadata2 tr =
       (fetch core ''/v3/account/venmo/{venmo_id}'' ''put'' (Some body) (Some metadata2),
        tr @ [Fetch ''/v3/account/venmo/{venmo_id}'' ''put'' (Some body) (Some metadata2)])
   \<and> add_wallet core body tr =
       (fetch core ''/v3/account/wallet'' ''post'' (Some body) None,
        tr @ [Fetch ''/v3/account/wallet'' ''post'' (Some body) None])
   \<and> get_zelle core tr =
       (fetch core ''/v3/account/zelle'' ''get'' None None,
        tr @ [Fetch ''/v3/account/zelle'' ''get'' None None])
   \<and> add_zelle core body tr =
       (fetch core ''/v3/account/zelle'' ''post'' (Some body) None,
        tr @ [Fetch ''/v3/account/zelle'' ''post'' (Some body) None])
   \<and> put_zelle core body metadata2 tr =
       (fetch core ''/v3/account/zelle/{account_id}'' ''put'' (Some body) (Some metadata2),
        tr @ [Fetch ''/v3/account/zelle/{account_id}'' ''put'' (Some body) (Some metadata2)])
   \<and> remove_zelle core metadata tr =
       (fetch core ''/v3/account/zelle/{zelle_id}'' ''delete'' (Some metadata) None,
        tr @ [Fetch ''/v3/account/zelle/{zelle_id}'' ''delete'' (Some metadata) None])
   \<and> getApprovalChecks core metadata_opt tr =
       (fetch core ''/v3/approval'' ''get'' metadata_opt None,
        tr @ [Fetch ''/v3/approval'' ''get'' metadata_opt None])
   \<and> postApprovalDigital core body tr =
       (fetch core ''/v3/approval/digital'' ''post'' (Some body) None,
        tr @ [Fetch ''/v3/approval/digital'' ''post'' (Some body) None])
   \<and> postApprovalMulti core body tr =
       (fetch core ''/v3/approval/multi'' ''post'' (Some body) None,
        tr @ [Fetch ''/v3/approval/multi'' ''post'' (Some body) None])
   \<and> postApprovalPhysical core body tr =
       (fetch core ''/v3/approval/physical'' ''post'' (Some body) None,
        tr @ [Fetch ''/v3/approval/physical'' ''post'' (Some body) None])
   \<and> postApprovalRelease core body tr =
       (fetch core ''/v3/approval/release'' ''post'' (Some body) None,
        tr @ [Fetch ''/v3/approval/release'' ''post'' (Some body) None])
   \<and> deleteApprovalCheck core metadata tr =
       (fetch core ''/v3/approval/{lockbox_id}'' ''delete'' (Some metadata) None,
        tr @ [Fetch ''/v3/approval/{lockbox_id}'' ''delete'' (Some metadata) None])
   \<and> getApprovalCheck core metadata tr =
       (fetch core ''/v3/approval/{lockbox_id}'' ''get'' (Some metadata) None,
        tr @ [Fetch ''/v3/approval/{lockbox_id}'' ''get'' (Some metadata) None])
   \<and> putApprovalCheck core body metadata2 tr =
       (fetch core ''/v3/approval/{lockbox_id}'' ''put'' (Some body) (Some metadata2),
        tr @ [Fetch ''/v3/approval/{lockbox_id}'' ''put'' (Some body) (Some metadata2)])
   \<and> getApprovalAttachment core metadata tr =
       (fetch core ''/v3/approval/{lockbox_id}/attachment'' ''get'' (Some metadata) None,
        tr @ [Fetch ''/v3/approval/{lockbox_id}/attachment'' ''get'' (Some metadata) None])
   \<and> getChecks core metadata_opt tr =
       (fetch core ''/v3/check'' ''get'' metadata_opt None,
        tr @ [Fetch ''/v3/check'' ''get'' metadata_opt None])
   \<and> postCheckDeposit core body metadata2 tr =
       (fetch core ''/v3/check/deposit/{check_id}'' ''post'' (Some body) (Some metadata2),
        tr @ [Fetch ''/v3/check/deposit/{check_id}'' ''post'' (Some body) (Some metadata2)])
   \<and> postCheckDigital core body tr =
       (fetch core ''/v3/check/digital'' ''post'' (Some body) None,
        tr @ [Fetch ''/v3/check/digital'' ''post'' (Some body) None])
   \<and> postCheckEndorse core body metadata2 tr =
       (fetch core ''/v3/check/endorse/{check_id}'' ''post'' (Some body) (Some metadata2),
        tr @ [Fetch ''/v3/check/endorse/{check_id}'' ''post'' (Some body) (Some metadata2)])
   \<and> postCheckMulti core body tr =
       (fetch core ''/v3/check/multi'' ''post'' (Some body) None,
        tr @ [Fetch ''/v3/check/multi'' ''post'' (Some body) None])
   \<and> postCheckPhysical core body tr =
       (fetch core ''/v3/check/physical'' ''post'' (Some body) None,
        tr @ [Fetch ''/v3/check/physical'' ''post'' (Some body) None])
   \<and> postCheckPreview core body tr =
       (fetch core ''/v3/check/preview'' ''post'' (Some body) None,
        tr @ [Fetch ''/v3/check/preview'' ''post'' (Some body) None])
   \<and> postCheckPrint core metadata tr =
       (fetch core ''/v3/check/print/{check_id}'' ''post'' (Some metadata) None,
        tr @ [Fetch ''/v3/check/print/{check_id}'' ''post'' (Some metadata) None])
   \<and> post_check_webhook core body metadata2 tr =
       (fetch core ''/v3/check/webhook/{check_id}'' ''put'' (Some body) (Some metadata2),
        tr @ [Fetch ''/v3/check/webhook/{check_id}'' ''put'' (Some body) (Some metadata2)])
   \<and> deleteCheck core metadata tr =
       (fetch core ''/v3/check/{check_id}'' ''delete'' (Some metadata) None,
        tr @ [Fetch ''/v3/check/{check_id}'' ''delete'' (Some metadata) None])
   \<and> getCheck core metadata tr =
       (fetch core ''/v3/check/{check_id}'' ''get'' (Some metadata) None,
        tr @ [Fetch ''/v3/check/{check_id}'' ''get'' (Some metadata) None])
   \<and> getCheckAttachment core metadata tr =
       (fetch core ''/v3/check/{check_id}/attachment'' ''get'' (Some metadata) None,
        tr @ [Fetch ''/v3/check/{check_id}/attachment'' ''get'' (Some metadata) None])
   \<and> getCheckDeposit core metadata tr =
       (fetch core ''/v3/check/{check_id}/deposit'' ''get'' (Some metadata) None,
        tr @ [Fetch ''/v3/check/{check_id}/deposit'' ''get'' (Some metadata) None])
   \<and> getCheckFail core metadata tr =
       (fetch core ''/v3/check/{check_id}/fail'' ''get'' (Some metadata) None,
        tr @ [Fetch ''/v3/check/{check_id}/fail'' ''get'' (Some metadata) None])
   \<and> getCheckTracking core metadata tr =
       (fetch core ''/v3/check/{check_id}/tracking'' ''get'' (Some metadata) None,
        tr @ [Fetch ''/v3/check/{check_id}/tracking'' ''get'' (Some metadata) None])
   \<and> getDirectory core metadata_opt tr =
       (fetch core ''/v3/directory'' ''get'' metadata_opt None,
        tr @ [Fetch ''/v3/directory'' ''get'' metadata_opt None])
   \<and> createDirectory core body tr =
       (fetch core ''/v3/directory'' ''post'' (Some body) None,
        tr @ [Fetch ''/v3/directory'' ''post'' (Some body) None])
   \<and> deleteDirectory core metadata tr =
       (fetch core ''/v3/directory/{directory_id}'' ''delete'' (Some metadata) None,
        tr @ [Fetch ''/v3/directory/{directory_id}'' ''delete'' (Some metadata) None])
   \<and> updateDirectory core body metadata2 tr =
       (fetch core ''/v3/directory/{directory_id}'' ''put'' (Some body) (Some metadata2),
        tr @ [Fetch ''/v3/directory/{directory_id}'' ''put'' (Some body) (Some metadata2)])
   \<and> createDirectoryBank core body metadata2 tr =
       (fetch core ''/v3/directory/{directory_id}/account/bank'' ''post'' (Some body) (Some metadata2),
        tr @ [Fetch ''/v3/directory/{directory_id}/account/bank'' ''post'' (Some body) (Some metadata2)])
   \<and> createDirectoryCard core body metadata2 tr =
       (fetch core ''/v3/directory/{directory_id}/account/card'' ''post'' (Some body) (Some metadata2),
        tr @ [Fetch ''/v3/directory/{directory_id}/account/card'' ''post'' (Some body) (Some metadata2)])
   \<and> deleteDirectoryAccount core metadata tr =
       (fetch core ''/v3/directory/{directory_id}/account/{account_id}'' ''delete'' (Some metadata) None,
        tr @ [Fetch ''/v3/directory/{directory_id}/account/{account_id}'' ''delete'' (Some metadata) None])
   \<and> getInvoices core metadata_opt tr =
       (fetch core ''/v3/invoice'' ''get'' metadata_opt None,
        tr @ [Fetch ''/v3/invoice'' ''get'' metadata_opt None])
   \<and> postInvoice core body tr =
       (fetch core ''/v3/invoice'' ''post'' (Some body) None,
        tr @ [Fetch ''/v3/invoice'' ''post'' (Some body) None])
   \<and> postInvoicePayment core body tr =
       (fetch core ''/v3/invoice/payment'' ''post'' (Some body) None,
        tr @ [Fetch ''/v3/invoice/payment'' ''post'' (Some body) None])
   \<and> deleteInvoice core metadata tr =
       (fetch core ''/v3/invoice/{invoice_id}'' ''delete'' (Some metadata) None,
        tr @ [Fetch ''/v3/invoice/{invoice_id}'' ''delete'' (Some metadata) None])
   \<and> getInvoice core metadata tr =
       (fetch core ''/v3/invoice/{invoice_id}'' ''get'' (Some metadata) None,
        tr @ [Fetch ''/v3/invoice/{invoice_id}'' ''get'' (Some metadata) None])
   \<and> getInvoiceAttachment core metadata tr =
       (fetch core ''/v3/invoice/{invoice_id}/attachment'' ''get'' (Some metadata) None,
        tr @ [Fetch ''/v3/invoice/{invoice_id}/attachment'' ''get'' (Some metadata) None])
   \<and> getSubscriptions core metadata_opt tr =
       (fetch core ''/v3/subscription'' ''get'' metadata_opt None,
        tr @ [Fetch ''/v3/subscription'' ''get'' metadata_opt None])
   \<and> postSubscriptionCheck core body tr =
       (fetch core ''/v3/subscription/check'' ''post'' (Some body) None,
        tr @ [Fetch ''/v3/subscription/check'' ''post'' (Some body) None])
   \<and> postSubscriptionInvoice core body tr =
       (fetch core ''/v3/subscription/invoice'' ''post'' (Some body) None,
        tr @ [Fetch ''/v3/subscription/invoice'' ''post'' (Some body) None])
   \<and> deleteSubscription core metadata tr =
       (fetch core ''/v3/subscription/{subscription_id}'' ''delete'' (Some metadata) None,
        tr @ [Fetch ''/v3/subscription/{subscription_id}'' ''delete'' (Some metadata) None])
   \<and> getSubscription core metadata tr =
       (fetch core ''/v3/subscription/{subscription_id}'' ''get'' (Some metadata) None,
        tr @ [Fetch ''/v3/subscription/{subscription_id}'' ''get'' (Some metadata) None])
   \<and> putSubscription core body metadata2 tr =
       (fetch core ''/v3/subscription/{subscription_id}'' ''put'' (Some body) (Some metadata2),
        tr @ [Fetch ''/v3/subscription/{subscription_id}'' ''put'' (Some body) (Some metadata2)])
   \<and> getUser core tr =
       (fetch core ''/v3/user'' ''get'' None None,
        tr @ [Fetch ''/v3/user'' ''get'' None None])
   \<and> postUser core body tr =
       (fetch core ''/v3/user'' ''post'' (Some body) None,
        tr @ [Fetch ''/v3/user'' ''post'' (Some body) None])
   \<and> putUser core body tr =
       (fetch core ''/v3/user'' ''put'' (Some body) None,
        tr @ [Fetch ''/v3/user'' ''put'' (Some body) None])
   \<and> getApiKeys core tr =
       (fetch core ''/v3/user/api_key'' ''get'' None None,
        tr @ [Fetch ''/v3/user/api_key'' ''get'' None None])
   \<and> newApiKey core body tr =
       (fetch core ''/v3/user/api_key'' ''post'' (Some body) None,
        tr @ [Fetch ''/v3/user/api_key'' ''post'' (Some body) None])
   \<and> deleteApiKey core metadata tr =
       (fetch core ''/v3/user/api_key/{key_id}'' ''delete'' (Some metadata) None,
        tr @ [Fetch ''/v3/user/api_key/{key_id}'' ''delete'' (Some metadata) None])
   \<and> getUsers core metadata_opt tr =
       (fetch core ''/v3/user/list'' ''get'' metadata_opt None,
        tr @ [Fetch ''/v3/user/list'' ''get'' metadata_opt None])
   \<and> postUserSignature core body tr =
       (fetch core ''/v3/user/signature'' ''post'' (Some body) None,
        tr @ [Fetch ''/v3/user/signature'' ''post'' (Some body) None])
   \<and> deleteUser core metadata tr =
       (fetch core ''/v3/user/{user_id}'' ''delete'' (Some metadata) None,
        tr @ [Fetch ''/v3/user/{user_id}'' ''delete'' (Some metadata) None])"
  by (simp_all add: core_fetch_def sdk_operation_defs)

section \<open>The dropped promise of the customer creation\<close>

text \<open>
  C8. \<open>createCheckbookCustomer\<close> resolves to \<open>undefined\<close> for every input and
  every outcome of the vendor call. When the call succeeds, the created-user data is only
  logged by the \<open>then\<close> callback and dropped. When the promise rejects, the rejection is
  not caught by the surrounding \<open>try/catch\<close>: nothing is written to the console, and the
  rejection stays unhandled.
\<close>

theorem createCheckbookCustomer_drops_promise:
  "fst (createCheckbookCustomer core api_key api_secret newCustomer tr) = Inr Undefined
   \<and> (\<forall>response.
        fetch core ''/v3/user'' ''post''
          (Some \<lparr>name = firstName newCustomer @ ''_'' @ lastName newCustomer,
                 user_id = email newCustomer\<rparr>) None = Inr response
        \<longrightarrow> snd (createCheckbookCustomer core api_key api_secret newCustomer tr) =
              tr @ [SetAuth [template api_key @ '':'' @ template api_secret],
                    Fetch ''/v3/user'' ''post''
                      (Some \<lparr>name = firstName newCustomer @ ''_'' @ lastName newCustomer,
                             user_id = email newCustomer\<rparr>) None,
                    ConsoleLogData (data response)])
   \<and> (\<forall>e.
        fetch core ''/v3/user'' ''post''
          (Some \<lparr>name = firstName newCustomer @ ''_'' @ lastName newCustomer,
                 user_id = email newCustomer\<rparr>) None = Inl e
        \<longrightarrow> snd (createCheckbookCustomer core api_key api_secret newCustomer tr) =
              tr @ [SetAuth [template api_key @ '':'' @ template api_secret],
                    Fetch ''/v3/user'' ''post''
                      (Some \<lparr>name = firstName newCustomer @ ''_'' @ lastName newCustomer,
                             user_id = email newCustomer\<rparr>) None,
                    UnhandledRejection e]
            \<and> (\<forall>c. SdkConsole c \<notin>
                  set (drop (length tr)
                         (snd (createCheckbookCustomer core api_key api_secret newCustomer tr)))))"
  by (simp add: createCheckbookCustomer_run)

theorem createCheckbookCustomer_drops_promise_witness:
  "fetch (demo_core True) ''/v3/user'' ''post''
     (Some \<lparr>name = ''Ada_Lovelace'', user_id = ''ada@example.org''\<rparr>) None
     = Inr \<lparr>data = ''created'', status = 201\<rparr>
   \<and> createCheckbookCustomer (demo_core True) (Some ''key'') (Some ''secret'') ada [] =
       (Inr (Undefined :: unit ret),
        [SetAuth [''key:secret''],
         Fetch ''/v3/user'' ''post''
           (Some \<lparr>name = ''Ada_Lovelace'', user_id = ''ada@example.org''\<rparr>) None,
         ConsoleLogData ''created''])
   \<and> fetch (demo_core False) ''/v3/user'' ''post''
       (Some \<lparr>name = ''Ada_Lovelace'', user_id = ''ada@example.org''\<rparr>) None
       = Inl (Exn ''Bad gateway'')
   \<and> createCheckbookCustomer (demo_core False) (Some ''key'') (Some ''secret'') ada [] =
       (Inr (Undefined :: unit ret),
        [SetAuth [''key:secret''],
         Fetch ''/v3/user'' ''post''
           (Some \<lparr>name = ''Ada_Lovelace'', user_id = ''ada@example.org''\<rparr>) None,
         UnhandledRejection (Exn ''Bad gateway'')])"
proof -
  have up: "fetch (demo_core True) ''/v3/user'' ''post''
              (Some \<lparr>name = firstName ada @ ''_'' @ lastName ada, user_id = email ada\<rparr>) None
              = Inr \<lparr>data = ''created'', status = 201\<rparr>"
    by (simp add: demo_core_def)
  have down: "fetch (demo_core False) ''/v3/user'' ''post''
                (Some \<lparr>name = firstName ada @ ''_'' @ lastName ada, user_id = email ada\<rparr>) None
                = Inl (Exn ''Bad gateway'')"
    by (simp add: demo_core_def)
  note t1 = createCheckbookCustomer_drops_promise
              [of "demo_core True" "Some ''key''" "Some ''secret''" ada "[]"]
  note t2 = createCheckbookCustomer_drops_promise
              [of "demo_core False" "Some ''key''" "Some ''secret''" ada "[]"]
  have 1: "snd (createCheckbookCustomer (demo_core True) (Some ''key'') (Some ''secret'') ada [])
             = [] @ [SetAuth [template (Some ''key'') @ '':'' @ template (Some ''secret'')],
                 Fetch ''/v3/user'' ''post''
                   (Some \<lparr>name = firstName ada @ ''_'' @ lastName ada, user_id = email ada\<rparr>)
                   None,
                 ConsoleLogData (data \<lparr>data = ''created'', status = 201\<rparr>)]"
    using t1 up by blast
  have 2: "snd (createCheckbookCustomer (demo_core False) (Some ''key'') (Some ''secret'') ada [])
             = [] @ [SetAuth [template (Some ''key'') @ '':'' @ template (Some ''secret'')],
                 Fetch ''/v3/user'' ''post''
                   (Some \<lparr>name = firstName ada @ ''_'' @ lastName ada, user_id = email ada\<rparr>)
                   None,
                 UnhandledRejection (Exn ''Bad gateway'')]"
    using t2 down by blast
  have 3: "fst (createCheckbookCustomer (demo_core True) (Some ''key'') (Some ''secret'') ada [])
             = Inr (Undefined :: unit ret)"
    using t1 by blast
  have 4: "fst (createCheckbookCustomer (demo_core False) (Some ''key'') (Some ''secret'') ada [])
             = Inr (Undefined :: unit ret)"
    using t2 by blast
  show ?thesis
    using up down 1 2 3 4 by (simp add: prod_eq_iff ada_def template_def)
qed

section \<open>Sign-in leaves the cookies alone when the provider refuses\<close>

text \<open>
  C9. If creating the email/password session at the identity provider throws, \<open>signIn\<close>
  returns \<open>undefined\<close>, the cookie store is exactly what it was (in particular the
  \<open>appwrite-session\<close> cookie is not set), and no \<open>cookies().set\<close> call is made: the only
  effects are the two vendor calls and the logged error.
\<close>

theorem signIn_session_failure_keeps_cookies:
  assumes "createAdminClient env = Inr account"
    and "createEmailPasswordSession account em pw = Inl e"
  shows "fst (signIn env parseStringify em pw w) = Inr Undefined
       \<and> jar (snd (signIn env parseStringify em pw w)) = jar w
       \<and> trace (snd (signIn env parseStringify em pw w)) =
           trace w @ [CreateAdminClient, CreateEmailPasswordSession em pw,
                      Console (ConsoleError ''Error'' e)]"
  using assms by (simp add: signIn_def act_defs)

theorem signIn_session_failure_keeps_cookies_witness:
  "createAdminClient (demo_appwrite True) = Inr (demo_account True)
   \<and> createEmailPasswordSession (demo_account True) ''ada@example.org'' ''wrong''
       = Inl (Exn ''Invalid credentials'')
   \<and> fst (signIn (demo_appwrite True) id ''ada@example.org'' ''wrong'' logged_in_world)
       = Inr Undefined
   \<and> jar (snd (signIn (demo_appwrite True) id ''ada@example.org'' ''wrong'' logged_in_world))
       = jar logged_in_world
   \<and> trace (snd (signIn (demo_appwrite True) id ''ada@example.org'' ''wrong'' logged_in_world))
       = [CreateAdminClient, CreateEmailPasswordSession ''ada@example.org'' ''wrong'',
          Console (ConsoleError ''Error'' (Exn ''Invalid credentials''))]"
proof -
  have a: "createAdminClient (demo_appwrite True) = Inr (demo_account True)"
    by (simp add: demo_appwrite_def)
  have b: "createEmailPasswordSession (demo_account True) ''ada@example.org'' ''wrong''
             = Inl (Exn ''Invalid credentials'')"
    by (simp add: demo_account_def)
  show ?thesis
    using a b signIn_session_failure_keeps_cookies [OF a b, of id logged_in_world]
    by (simp add: logged_in_world_def)
qed

section \<open>Logout is not atomic\<close>

text \<open>
  C10. If the session deletion at the provider throws after the cookie deletion has run,
  \<open>logoutAccount\<close> returns \<open>undefined\<close>, yet the \<open>appwrite-session\<close> cookie is
  gone from the cookie store: the catch block only logs the error, nothing sets the
  cookie again.
\<close>

theorem logoutAccount_cookie_gone_after_failed_session_delete:
  assumes "createSessionClient env (jar w) = Inr account"
    and "deleteSession account ''current'' = Inl e"
  shows "fst (logoutAccount env w) = Inr Undefined
       \<and> jar (snd (logoutAccount env w)) = (jar w)(''appwrite-session'' := None)
       \<and> jar (snd (logoutAccount env w)) ''appwrite-session'' = None
       \<and> trace (snd (logoutAccount env w)) =
           trace w @ [CreateSessionClient, CookiesDelete ''appwrite-session'',
                      DeleteSession ''current'', Console (ConsoleError ''Error'' e)]"
  using assms by (simp add: logoutAccount_run)

theorem logoutAccount_cookie_gone_after_failed_session_delete_witness:
  "createSessionClient (demo_appwrite False) (jar logged_in_world) = Inr (demo_account False)
   \<and> deleteSession (demo_account False) ''current'' = Inl (Exn ''Service unavailable'')
   \<and> jar logged_in_world ''appwrite-session'' = Some (''tok-1'', strict_options)
   \<and> fst (logoutAccount (demo_appwrite False) logged_in_world) = Inr Undefined
   \<and> jar (snd (logoutAccount (demo_appwrite False) logged_in_world)) ''appwrite-session'' = None
   \<and> trace (snd (logoutAccount (demo_appwrite False) logged_in_world)) =
         [CreateSessionClient, CookiesDelete ''appwrite-session'', DeleteSession ''current'',
          Console (ConsoleError ''Error'' (Exn ''Service unavailable''))]"
proof -
  have a: "createSessionClient (demo_appwrite False) (jar logged_in_world)
             = Inr (demo_account False)"
    by (simp add: demo_appwrite_def logged_in_world_def)
  have b: "deleteSession (demo_account False) ''current'' = Inl (Exn ''Service unavailable'')"
    by (simp add: demo_account_def)
  show ?thesis
    using a b logoutAccount_cookie_gone_after_failed_session_delete [OF a b]
    by (simp add: logged_in_world_def)
qed

end
